theory Spec2Isabelle
  imports Complex_Main
begin

section \<open>The decimal library: values, comparison and arithmetic of \<open>BigNumber\<close>\<close>

text \<open>
  The bridge form of \<^verbatim>\<open>useBridgeForm\<close> computes on \<^verbatim>\<open>bignumber.js\<close> values. A
  \<^verbatim>\<open>BigNumber\<close> is a finite decimal, one of the two infinities, or NaN. Finite values
  are kept as rationals. Zero has a sign in the library: \<open>Fin 0\<close> is the positive zero
  and \<open>NegZero\<close> the negative one. The library is used with its default configuration:
  \<^verbatim>\<open>DECIMAL_PLACES = 20\<close>, \<^verbatim>\<open>ROUNDING_MODE = ROUND_HALF_UP\<close>,
  \<^verbatim>\<open>RANGE = 1e9\<close>, \<^verbatim>\<open>DEBUG\<close> unset.
\<close>

datatype bignumber = NaN | PosInfinity | NegInfinity | NegZero | Fin rat

definition MAX_EXP :: nat where
  "MAX_EXP = 1000000000"

definition DECIMAL_PLACES :: nat where
  "DECIMAL_PLACES = 20"

definition bn_signed_infinity :: "bool \<Rightarrow> bignumber" where
  "bn_signed_infinity negative = (if negative then NegInfinity else PosInfinity)"

definition bn_signed_zero :: "bool \<Rightarrow> bignumber" where
  "bn_signed_zero negative = (if negative then NegZero else Fin 0)"

text \<open>
  \<^verbatim>\<open>normalise\<close>: a result whose decimal exponent is above \<^verbatim>\<open>MAX_EXP\<close> becomes an
  infinity, one whose exponent is below \<^verbatim>\<open>-MAX_EXP\<close> becomes a zero, of the same sign.
\<close>

definition bn_normalise :: "rat \<Rightarrow> bignumber" where
  "bn_normalise q =
     (if 10 ^ (MAX_EXP + 1) \<le> \<bar>q\<bar> then bn_signed_infinity (q < 0)
      else if \<bar>q\<bar> * 10 ^ MAX_EXP < 1 then bn_signed_zero (q < 0)
      else Fin q)"

text \<open>\<^verbatim>\<open>ROUND_HALF_UP\<close> to \<open>dp\<close> decimal places: to the nearest, ties away from zero.\<close>

definition bn_round_half_up :: "nat \<Rightarrow> rat \<Rightarrow> rat" where
  "bn_round_half_up dp q =
     (if q < 0 then - (of_int \<lfloor>(- q) * 10 ^ dp + 1 / 2\<rfloor> / 10 ^ dp)
      else of_int \<lfloor>q * 10 ^ dp + 1 / 2\<rfloor> / 10 ^ dp)"

fun bn_isFinite :: "bignumber \<Rightarrow> bool" where
  "bn_isFinite (Fin a) = True"
| "bn_isFinite NegZero = True"
| "bn_isFinite _ = False"

text \<open>The value of a finite number.\<close>

fun bn_rat :: "bignumber \<Rightarrow> rat" where
  "bn_rat (Fin a) = a"
| "bn_rat _ = 0"

fun bn_isZero :: "bignumber \<Rightarrow> bool" where
  "bn_isZero (Fin a) = (a = 0)"
| "bn_isZero NegZero = True"
| "bn_isZero _ = False"

fun bn_isNegative :: "bignumber \<Rightarrow> bool" where
  "bn_isNegative (Fin a) = (a < 0)"
| "bn_isNegative NegZero = True"
| "bn_isNegative NegInfinity = True"
| "bn_isNegative _ = False"

text \<open>
  \<^verbatim>\<open>compare(x, y)\<close>: \<open>None\<close> when either is NaN (the library's \<^verbatim>\<open>null\<close>), otherwise
  \<open>-1\<close>, \<open>0\<close> or \<open>1\<close>. The two zeros are equal.
\<close>

fun bn_compare :: "bignumber \<Rightarrow> bignumber \<Rightarrow> int option" where
  "bn_compare NaN _ = None"
| "bn_compare _ NaN = None"
| "bn_compare PosInfinity PosInfinity = Some 0"
| "bn_compare PosInfinity _ = Some 1"
| "bn_compare NegInfinity NegInfinity = Some 0"
| "bn_compare NegInfinity _ = Some (- 1)"
| "bn_compare _ PosInfinity = Some (- 1)"
| "bn_compare _ NegInfinity = Some 1"
| "bn_compare x y =
     Some (if bn_rat x < bn_rat y then - 1 else if bn_rat x = bn_rat y then 0 else 1)"

definition bn_gt :: "bignumber \<Rightarrow> bignumber \<Rightarrow> bool" where
  "bn_gt x y = (case bn_compare x y of None \<Rightarrow> False | Some c \<Rightarrow> 0 < c)"

definition bn_lt :: "bignumber \<Rightarrow> bignumber \<Rightarrow> bool" where
  "bn_lt x y = (case bn_compare x y of None \<Rightarrow> False | Some c \<Rightarrow> c < 0)"

definition bn_lte :: "bignumber \<Rightarrow> bignumber \<Rightarrow> bool" where
  "bn_lte x y = (case bn_compare x y of None \<Rightarrow> False | Some c \<Rightarrow> c = - 1 \<or> c = 0)"

definition bn_gte :: "bignumber \<Rightarrow> bignumber \<Rightarrow> bool" where
  "bn_gte x y = (case bn_compare x y of None \<Rightarrow> False | Some c \<Rightarrow> c = 1 \<or> c = 0)"

text \<open>
  \<^verbatim>\<open>x.times(y)\<close>: exact; NaN for a NaN operand and for infinity times zero. The sign of
  a zero or infinite product is the product of the signs.
\<close>

fun bn_times :: "bignumber \<Rightarrow> bignumber \<Rightarrow> bignumber" where
  "bn_times NaN _ = NaN"
| "bn_times _ NaN = NaN"
| "bn_times x y =
     (if bn_isFinite x \<and> bn_isFinite y then
        (if bn_isZero x \<or> bn_isZero y
         then bn_signed_zero (bn_isNegative x \<noteq> bn_isNegative y)
         else bn_normalise (bn_rat x * bn_rat y))
      else
        (if bn_isZero x \<or> bn_isZero y then NaN
         else bn_signed_infinity (bn_isNegative x \<noteq> bn_isNegative y)))"

text \<open>
  \<^verbatim>\<open>x.minus(y)\<close>: exact; NaN for a NaN operand and for equal infinities. Of two zeros
  the difference is the negative zero only for \<open>-0 - +0\<close>; a number minus itself is the
  positive zero.
\<close>

fun bn_minus :: "bignumber \<Rightarrow> bignumber \<Rightarrow> bignumber" where
  "bn_minus NaN _ = NaN"
| "bn_minus _ NaN = NaN"
| "bn_minus PosInfinity PosInfinity = NaN"
| "bn_minus NegInfinity NegInfinity = NaN"
| "bn_minus PosInfinity _ = PosInfinity"
| "bn_minus NegInfinity _ = NegInfinity"
| "bn_minus _ PosInfinity = NegInfinity"
| "bn_minus _ NegInfinity = PosInfinity"
| "bn_minus x y =
     (if bn_isZero x \<and> bn_isZero y
      then bn_signed_zero (bn_isNegative x \<and> \<not> bn_isNegative y)
      else if bn_isZero y then x
      else if bn_isZero x then Fin (- bn_rat y)
      else bn_normalise (bn_rat x - bn_rat y))"

text \<open>
  \<^verbatim>\<open>x.dividedBy(y)\<close>: NaN for a NaN operand, for two infinities and for zero by zero;
  an infinity for a non-zero value by zero and for an infinity by a finite value; a
  zero for zero by a non-zero value and for a finite value by an infinity; otherwise the
  quotient rounded to \<^verbatim>\<open>DECIMAL_PLACES\<close>. The sign of a zero or infinite quotient is the
  product of the signs. Dividing by zero raises nothing.
\<close>

fun bn_dividedBy :: "bignumber \<Rightarrow> bignumber \<Rightarrow> bignumber" where
  "bn_dividedBy NaN _ = NaN"
| "bn_dividedBy _ NaN = NaN"
| "bn_dividedBy x y =
     (if \<not> bn_isFinite x then
        (if \<not> bn_isFinite y then NaN
         else bn_signed_infinity (bn_isNegative x \<noteq> bn_isNegative y))
      else if \<not> bn_isFinite y then bn_signed_zero (bn_isNegative x \<noteq> bn_isNegative y)
      else if bn_isZero y then
        (if bn_isZero x then NaN
         else bn_signed_infinity (bn_isNegative x \<noteq> bn_isNegative y))
      else if bn_isZero x then bn_signed_zero (bn_isNegative x \<noteq> bn_isNegative y)
      else
        (let r = bn_round_half_up DECIMAL_PLACES (bn_rat x / bn_rat y)
         in if r = 0 then bn_signed_zero (bn_isNegative x \<noteq> bn_isNegative y)
            else bn_normalise r))"

section \<open>Reading a \<open>BigNumber\<close> from a string\<close>

text \<open>
  \<^verbatim>\<open>new BigNumber(v)\<close> for a string \<open>v\<close>. Strings are sequences of 8-bit characters, so
  the whitespace class \<^verbatim>\<open>\s\<close> is the ASCII whitespace and the no-break space here. A string that matches
  \<^verbatim>\<open>/^-?(?:\d+(?:\.\d*)?|\.\d+)(?:e[+-]?\d+)?$/i\<close> is read as a decimal. Any other
  string goes to \<^verbatim>\<open>parseNumeric\<close>: surrounding whitespace and one leading plus sign
  are removed, \<^verbatim>\<open>Infinity\<close> and \<^verbatim>\<open>NaN\<close> are recognised, a literal with a base prefix
  (\<^verbatim>\<open>0x\<close>, \<^verbatim>\<open>0b\<close>, \<^verbatim>\<open>0o\<close>) is converted by the library's base conversion, and what
  is left is NaN (no exception, since \<^verbatim>\<open>DEBUG\<close> is unset).
\<close>

definition is_digit :: "char \<Rightarrow> bool" where
  "is_digit c = (c \<in> set ''0123456789'')"

definition is_word :: "char \<Rightarrow> bool" where
  "is_word c =
     (c \<in> set ''abcdefghijklmnopqrstuvwxyzABCDEFGHIJKLMNOPQRSTUVWXYZ0123456789_'')"

definition is_whitespace :: "char \<Rightarrow> bool" where
  "is_whitespace c =
     (c \<in> set [CHR 0x09, CHR 0x0A, CHR 0x0B, CHR 0x0C, CHR 0x0D, CHR '' '', CHR 0xA0])"

definition digits_value :: "string \<Rightarrow> nat" where
  "digits_value ds = foldl (\<lambda>n c. 10 * n + (of_char c - 48)) 0 ds"

definition pow10 :: "int \<Rightarrow> rat" where
  "pow10 k = (if 0 \<le> k then 10 ^ nat k else 1 / 10 ^ nat (- k))"

definition split_sign :: "string \<Rightarrow> bool \<times> string" where
  "split_sign str =
     (case str of
        [] \<Rightarrow> (False, str)
      | c # r \<Rightarrow> if c = CHR ''-'' then (True, r) else (False, str))"

text \<open>The part \<^verbatim>\<open>(?:e[+-]?\d+)?\<close>: \<open>Some\<close> exponent, or \<open>None\<close> when it does not match.\<close>

definition parse_exponent :: "string \<Rightarrow> int option" where
  "parse_exponent s =
     (case s of
        [] \<Rightarrow> Some 0
      | c # r \<Rightarrow>
          if c = CHR ''e'' \<or> c = CHR ''E'' then
            (let (neg, ds) =
                   (case r of
                      [] \<Rightarrow> (False, r)
                    | d # r' \<Rightarrow>
                        if d = CHR ''-'' then (True, r')
                        else if d = CHR ''+'' then (False, r')
                        else (False, r))
             in if ds \<noteq> [] \<and> list_all is_digit ds
                then Some (if neg then - int (digits_value ds) else int (digits_value ds))
                else None)
          else None)"

text \<open>
  The part \<^verbatim>\<open>(?:\d+(?:\.\d*)?|\.\d+)\<close>: the integer digits and the fraction digits.
\<close>

definition parse_mantissa :: "string \<Rightarrow> (string \<times> string) option" where
  "parse_mantissa m =
     (let ip = takeWhile is_digit m; r = dropWhile is_digit m
      in case r of
           [] \<Rightarrow> if ip = [] then None else Some (ip, [])
         | c # fp \<Rightarrow>
             if c = CHR ''.'' \<and> list_all is_digit fp \<and> (ip \<noteq> [] \<or> fp \<noteq> [])
             then Some (ip, fp) else None)"

definition parse_decimal :: "string \<Rightarrow> bignumber option" where
  "parse_decimal str =
     (let (neg, s) = split_sign str;
          m = takeWhile (\<lambda>c. c \<noteq> CHR ''e'' \<and> c \<noteq> CHR ''E'') s;
          x = dropWhile (\<lambda>c. c \<noteq> CHR ''e'' \<and> c \<noteq> CHR ''E'') s
      in case (parse_mantissa m, parse_exponent x) of
           (Some (ip, fp), Some e) \<Rightarrow>
             Some
               (if digits_value (ip @ fp) = 0 then bn_signed_zero neg
                else bn_normalise
                  ((if neg then - 1 else 1) * of_nat (digits_value (ip @ fp))
                     * pow10 (e - int (length fp))))
         | _ \<Rightarrow> None)"

text \<open>
  Replacing \<^verbatim>\<open>/^\s*\+(?=[\w.])|^\s+|\s+$/g\<close> by the empty string: leading whitespace
  goes, with a plus sign after it when a word character or a dot follows the sign, and
  trailing whitespace goes.
\<close>

definition strip_whitespaceOrPlus :: "string \<Rightarrow> string" where
  "strip_whitespaceOrPlus str =
     (let a = dropWhile is_whitespace str;
          b = (case a of
                 p # c # r \<Rightarrow>
                   if p = CHR ''+'' \<and> (is_word c \<or> c = CHR ''.'') then c # r else a
               | _ \<Rightarrow> a)
      in rev (dropWhile is_whitespace (rev b)))"

definition isInfinityOrNaN :: "string \<Rightarrow> bool" where
  "isInfinityOrNaN s = (s \<in> set [''Infinity'', ''-Infinity'', ''NaN'', ''-NaN''])"

text \<open>
  \<^verbatim>\<open>/^(-?)0([xbo])(?=\w[\w.]*$)/i\<close>: the base and the string with the prefix removed
  (the sign kept).
\<close>

definition basePrefix :: "string \<Rightarrow> (nat \<times> string) option" where
  "basePrefix s =
     (let (neg, r) = split_sign s
      in case r of
           z # p # d # rest \<Rightarrow>
             if z = CHR ''0'' \<and> p \<in> set ''xXbBoO'' \<and> is_word d
                \<and> list_all (\<lambda>c. is_word c \<or> c = CHR ''.'') rest
             then Some
               (if p \<in> set ''xX'' then 16 else if p \<in> set ''bB'' then 2 else 8,
                (if neg then ''-'' else []) @ d # rest)
             else None
         | _ \<Rightarrow> None)"

text \<open>
  \<open>in_base b s\<close> stands for \<^verbatim>\<open>new BigNumber(s, b)\<close> with an explicit base, the library's
  digit-by-digit conversion, which is not needed further and stays a parameter.
\<close>

definition parseNumeric :: "(nat \<Rightarrow> string \<Rightarrow> bignumber) \<Rightarrow> string \<Rightarrow> bignumber" where
  "parseNumeric in_base str =
     (let s = strip_whitespaceOrPlus str
      in if isInfinityOrNaN s then
           (if s = ''Infinity'' then PosInfinity
            else if s = ''-Infinity'' then NegInfinity else NaN)
         else
           (case basePrefix s of
              Some (b, s') \<Rightarrow> in_base b s'
            | None \<Rightarrow>
                if str \<noteq> s then (case parse_decimal s of Some x \<Rightarrow> x | None \<Rightarrow> NaN)
                else NaN))"

definition new_BigNumber :: "(nat \<Rightarrow> string \<Rightarrow> bignumber) \<Rightarrow> string \<Rightarrow> bignumber" where
  "new_BigNumber in_base v =
     (case parse_decimal v of Some x \<Rightarrow> x | None \<Rightarrow> parseNumeric in_base v)"

section \<open>The bridge form: \<^verbatim>\<open>useBridgeForm\<close>\<close>

subsection \<open>Data\<close>

text \<open>Of a \<^verbatim>\<open>Token\<close> the form reads the symbol only.\<close>

record token =
  symbol :: string

text \<open>
  The output of \<^verbatim>\<open>useGetXvsBridgeStatus\<close>. Two of its fields give their names to values
  the hook derives from them, so these two carry the prefix \<open>status_\<close>.
\<close>

record xvs_bridge_status =
  status_maxSingleTransactionLimitUsd :: bignumber
  maxDailyLimitUsd :: bignumber
  totalTransferredLast24HourUsd :: bignumber
  status_dailyLimitResetTimestamp :: bignumber

text \<open>
  What one render of the hook reads: its arguments and the data of its queries, each
  query \<open>None\<close> while it has no data. \<open>getTokenUsdPriceData\<close> holds the field
  \<^verbatim>\<open>tokenPriceUsd\<close> and \<open>getBalanceOfNativeTokenData\<close> the field \<^verbatim>\<open>balanceMantissa\<close>.
\<close>

record bridge_form_input =
  walletBalanceTokens :: bignumber
  xvs :: "token option"
  getTokenUsdPriceData :: "bignumber option"
  getXvsBridgeStatusData :: "xvs_bridge_status option"
  getBalanceOfNativeTokenData :: "bignumber option"

subsection \<open>JavaScript numbers and dates\<close>

text \<open>
  A JavaScript number is a double: NaN, an infinity, or a rational value. A \<^verbatim>\<open>Date\<close>
  holds a time value, an integral number of milliseconds since the epoch, or NaN for an
  invalid date (\<open>None\<close>). The functions on time values are the abstract operations of
  the ECMAScript specification.
\<close>

datatype js_number = JNaN | JPosInfinity | JNegInfinity | JNum rat

type_synonym js_date = "int option"

definition msPerDay :: int where
  "msPerDay = 86400000"

definition Day :: "int \<Rightarrow> int" where
  "Day t = t div msPerDay"

definition TimeWithinDay :: "int \<Rightarrow> int" where
  "TimeWithinDay t = t mod msPerDay"

definition DaysInYear :: "int \<Rightarrow> int" where
  "DaysInYear y =
     (if y mod 4 \<noteq> 0 then 365
      else if y mod 100 \<noteq> 0 then 366
      else if y mod 400 \<noteq> 0 then 365
      else 366)"

definition DayFromYear :: "int \<Rightarrow> int" where
  "DayFromYear y =
     365 * (y - 1970) + (y - 1969) div 4 - (y - 1901) div 100 + (y - 1601) div 400"

text \<open>
  \<^verbatim>\<open>YearFromTime(t)\<close> is the largest year that starts at or before \<open>t\<close>. It is found
  from an estimate by stepping down while the year starts after the day, then up while
  the next year starts at or before it.
\<close>

function year_down :: "int \<Rightarrow> int \<Rightarrow> int" where
  "year_down y d = (if d < DayFromYear y then year_down (y - 1) d else y)"
  by pat_completeness auto
termination
proof (relation "measure (\<lambda>(y, d). nat (DayFromYear y - d))")
  show "wf (measure (\<lambda>(y, d). nat (DayFromYear y - d)))"
    by simp
next
  fix y d :: int
  have step: "DayFromYear z < DayFromYear (z + 1)" for z
  proof -
    define a where "a = (z - 1969) div 4"
    define a' where "a' = (z + 1 - 1969) div 4"
    define b where "b = (z - 1901) div 100"
    define b' where "b' = (z + 1 - 1901) div 100"
    define c where "c = (z - 1601) div 400"
    define c' where "c' = (z + 1 - 1601) div 400"
    have "a \<le> a'" unfolding a_def a'_def by (rule zdiv_mono1) simp_all
    moreover have "c \<le> c'" unfolding c_def c'_def by (rule zdiv_mono1) simp_all
    moreover have "b' \<le> b + 1"
    proof -
      have "b' \<le> (z - 1901 + 100) div 100" unfolding b'_def by (rule zdiv_mono1) simp_all
      also have "\<dots> = b + 1" unfolding b_def by simp
      finally show ?thesis .
    qed
    moreover have "DayFromYear z = 365 * (z - 1970) + a - b + c"
      by (simp only: DayFromYear_def a_def b_def c_def)
    moreover have "DayFromYear (z + 1) = 365 * (z + 1 - 1970) + a' - b' + c'"
      by (simp only: DayFromYear_def a'_def b'_def c'_def)
    ultimately show ?thesis by (simp only:) arith
  qed
  assume "d < DayFromYear y"
  moreover have "DayFromYear (y - 1) < DayFromYear y"
    using step [of "y - 1"] by simp
  ultimately show "((y - 1, d), (y, d)) \<in> measure (\<lambda>(y, d). nat (DayFromYear y - d))"
    by simp
qed

function year_up :: "int \<Rightarrow> int \<Rightarrow> int" where
  "year_up y d = (if DayFromYear (y + 1) \<le> d then year_up (y + 1) d else y)"
  by pat_completeness auto
termination
proof (relation "measure (\<lambda>(y, d). nat (d - DayFromYear (y + 1) + 1))")
  show "wf (measure (\<lambda>(y, d). nat (d - DayFromYear (y + 1) + 1)))"
    by simp
next
  fix y d :: int
  have step: "DayFromYear z < DayFromYear (z + 1)" for z
  proof -
    define a where "a = (z - 1969) div 4"
    define a' where "a' = (z + 1 - 1969) div 4"
    define b where "b = (z - 1901) div 100"
    define b' where "b' = (z + 1 - 1901) div 100"
    define c where "c = (z - 1601) div 400"
    define c' where "c' = (z + 1 - 1601) div 400"
    have "a \<le> a'" unfolding a_def a'_def by (rule zdiv_mono1) simp_all
    moreover have "c \<le> c'" unfolding c_def c'_def by (rule zdiv_mono1) simp_all
    moreover have "b' \<le> b + 1"
    proof -
      have "b' \<le> (z - 1901 + 100) div 100" unfolding b'_def by (rule zdiv_mono1) simp_all
      also have "\<dots> = b + 1" unfolding b_def by simp
      finally show ?thesis .
    qed
    moreover have "DayFromYear z = 365 * (z - 1970) + a - b + c"
      by (simp only: DayFromYear_def a_def b_def c_def)
    moreover have "DayFromYear (z + 1) = 365 * (z + 1 - 1970) + a' - b' + c'"
      by (simp only: DayFromYear_def a'_def b'_def c'_def)
    ultimately show ?thesis by (simp only:) arith
  qed
  assume "DayFromYear (y + 1) \<le> d"
  moreover have "DayFromYear (y + 1) < DayFromYear (y + 1 + 1)"
    by (rule step)
  ultimately show
    "((y + 1, d), (y, d)) \<in> measure (\<lambda>(y, d). nat (d - DayFromYear (y + 1) + 1))"
    by simp
qed

declare year_down.simps [simp del] year_up.simps [simp del]

definition YearFromTime :: "int \<Rightarrow> int" where
  "YearFromTime t = year_up (year_down (1970 + Day t div 365) (Day t)) (Day t)"

definition InLeapYear :: "int \<Rightarrow> int" where
  "InLeapYear t = (if DaysInYear (YearFromTime t) = 366 then 1 else 0)"

definition DayWithinYear :: "int \<Rightarrow> int" where
  "DayWithinYear t = Day t - DayFromYear (YearFromTime t)"

definition MonthFromTime :: "int \<Rightarrow> int" where
  "MonthFromTime t =
     (let d = DayWithinYear t; l = InLeapYear t
      in if d < 31 then 0
         else if d < 59 + l then 1
         else if d < 90 + l then 2
         else if d < 120 + l then 3
         else if d < 151 + l then 4
         else if d < 181 + l then 5
         else if d < 212 + l then 6
         else if d < 243 + l then 7
         else if d < 273 + l then 8
         else if d < 304 + l then 9
         else if d < 334 + l then 10
         else 11)"

text \<open>The number of days of a year before the month \<open>m\<close> (from 0), \<open>l\<close> being 1 in a leap year.\<close>

definition days_before_month :: "int \<Rightarrow> int \<Rightarrow> int" where
  "days_before_month m l =
     (if m = 0 then 0
      else if m = 1 then 31
      else if m = 2 then 59 + l
      else if m = 3 then 90 + l
      else if m = 4 then 120 + l
      else if m = 5 then 151 + l
      else if m = 6 then 181 + l
      else if m = 7 then 212 + l
      else if m = 8 then 243 + l
      else if m = 9 then 273 + l
      else if m = 10 then 304 + l
      else 334 + l)"

definition DateFromTime :: "int \<Rightarrow> int" where
  "DateFromTime t =
     DayWithinYear t - days_before_month (MonthFromTime t) (InLeapYear t) + 1"

text \<open>
  \<^verbatim>\<open>MakeDay(year, month, date)\<close>: the day number of the first of the month, plus
  \<open>date - 1\<close>; a month outside 0 to 11 carries into the year.
\<close>

definition MakeDay :: "int \<Rightarrow> int \<Rightarrow> int \<Rightarrow> int" where
  "MakeDay year month date =
     (let ym = year + month div 12; mn = month mod 12
      in DayFromYear ym
         + days_before_month mn (if DaysInYear ym = 366 then 1 else 0) + date - 1)"

definition MakeDate :: "int \<Rightarrow> int \<Rightarrow> int" where
  "MakeDate day time = day * msPerDay + time"

definition TimeClip :: "int \<Rightarrow> js_date" where
  "TimeClip t = (if 8640000000000000 < \<bar>t\<bar> then None else Some t)"

text \<open>A value handed to the translation function \<^verbatim>\<open>t\<close> under a key.\<close>

datatype t_value = TString string | TDate js_date | TUndefined

subsection \<open>What the hook calls and does not define\<close>

text \<open>
  The translation function \<^verbatim>\<open>t\<close> (here \<open>t_translate\<close>) and the formatting utilities, with
  \<open>'c\<close> the type of amounts in cents; the library's conversion of a literal with a base
  prefix; the rounding of a rational to the nearest double, for the values that are not
  doubles themselves; \<^verbatim>\<open>fromUnixTime\<close> of date-fns on a number of seconds that is not
  whole; and the offset of the local time zone, \<^verbatim>\<open>LocalTZA(t, isUTC)\<close> in milliseconds.
\<close>

record 'c externals =
  in_base :: "nat \<Rightarrow> string \<Rightarrow> bignumber"
  t_translate :: "string \<Rightarrow> (string \<times> t_value) list \<Rightarrow> string"
  formatTokensToReadableValue :: "bignumber \<Rightarrow> token option \<Rightarrow> string"
  formatCentsToReadableValue :: "'c \<Rightarrow> string"
  convertDollarsToCents :: "bignumber \<Rightarrow> 'c"
  nearest_double :: "rat \<Rightarrow> js_number"
  fromUnixTime_fraction :: "rat \<Rightarrow> js_date"
  LocalTZA :: "int \<Rightarrow> bool \<Rightarrow> int"

text \<open>
  \<^verbatim>\<open>x.toNumber()\<close>: a whole number of at most \<open>2 ^ 53\<close> in absolute value is a double
  and is kept; any other finite value is rounded to a double.
\<close>

definition toNumber :: "'c externals \<Rightarrow> bignumber \<Rightarrow> js_number" where
  "toNumber ext x =
     (case x of
        NaN \<Rightarrow> JNaN
      | PosInfinity \<Rightarrow> JPosInfinity
      | NegInfinity \<Rightarrow> JNegInfinity
      | NegZero \<Rightarrow> JNum 0
      | Fin q \<Rightarrow>
          if of_int \<lfloor>q\<rfloor> = q \<and> \<bar>q\<bar> \<le> 2 ^ 53 then JNum q else nearest_double ext q)"

text \<open>
  \<^verbatim>\<open>fromUnixTime(n)\<close> is \<^verbatim>\<open>new Date(n * 1000)\<close>: invalid for NaN and the infinities, and
  for a whole number of seconds the time value in milliseconds when it is in the range
  of \<^verbatim>\<open>Date\<close>.
\<close>

definition fromUnixTime :: "'c externals \<Rightarrow> js_number \<Rightarrow> js_date" where
  "fromUnixTime ext n =
     (case n of
        JNum s \<Rightarrow>
          if of_int \<lfloor>s\<rfloor> = s then TimeClip (\<lfloor>s\<rfloor> * 1000) else fromUnixTime_fraction ext s
      | _ \<Rightarrow> None)"

definition LocalTime :: "'c externals \<Rightarrow> int \<Rightarrow> int" where
  "LocalTime ext t = t + LocalTZA ext t True"

definition UTC :: "'c externals \<Rightarrow> int \<Rightarrow> int" where
  "UTC ext t = t - LocalTZA ext t False"

text \<open>\<^verbatim>\<open>date.getDate()\<close>: the day of the month in local time, NaN for an invalid date.\<close>

definition getDate :: "'c externals \<Rightarrow> js_date \<Rightarrow> int option" where
  "getDate ext date = (case date of None \<Rightarrow> None | Some t \<Rightarrow> Some (DateFromTime (LocalTime ext t)))"

text \<open>
  \<^verbatim>\<open>date.setDate(dt)\<close>: the new time value of the date, which keeps the year, the month
  and the time within the day of its local time and takes \<open>dt\<close> as day of the month.
\<close>

definition setDate :: "'c externals \<Rightarrow> js_date \<Rightarrow> int option \<Rightarrow> js_date" where
  "setDate ext date dt =
     (case date of
        None \<Rightarrow> None
      | Some t \<Rightarrow>
          (case dt of
             None \<Rightarrow> None
           | Some d \<Rightarrow>
               (let tl = LocalTime ext t;
                    newDate = MakeDate (MakeDay (YearFromTime tl) (MonthFromTime tl) d)
                                (TimeWithinDay tl)
                in TimeClip (UTC ext newDate))))"

subsection \<open>Issues\<close>

text \<open>The argument of \<^verbatim>\<open>ctx.addIssue\<close>, and the context as the issues added so far.\<close>

record issue =
  code :: string
  message :: string
  path :: "string list"

type_synonym refinement_ctx = "issue list"

definition addIssue :: "refinement_ctx \<Rightarrow> issue \<Rightarrow> refinement_ctx" where
  "addIssue ctx i = ctx @ [i]"

subsection \<open>Derived values\<close>

definition xvsPriceUsd :: "bridge_form_input \<Rightarrow> bignumber" where
  "xvsPriceUsd h = (case getTokenUsdPriceData h of Some p \<Rightarrow> p | None \<Rightarrow> Fin 0)"

definition nativeTokenBalanceMantissa :: "bridge_form_input \<Rightarrow> bignumber" where
  "nativeTokenBalanceMantissa h =
     (case getBalanceOfNativeTokenData h of Some b \<Rightarrow> b | None \<Rightarrow> Fin 0)"

definition maxSingleTransactionLimitUsd :: "bridge_form_input \<Rightarrow> bignumber" where
  "maxSingleTransactionLimitUsd h =
     (case getXvsBridgeStatusData h of
        Some st \<Rightarrow> status_maxSingleTransactionLimitUsd st
      | None \<Rightarrow> Fin 0)"

definition dailyLimitResetTimestamp :: "bridge_form_input \<Rightarrow> bignumber" where
  "dailyLimitResetTimestamp h =
     (case getXvsBridgeStatusData h of
        Some st \<Rightarrow> status_dailyLimitResetTimestamp st
      | None \<Rightarrow> Fin 0)"

text \<open>The pair \<^verbatim>\<open>[remainingXvsDailyLimitUsd, remainingXvsDailyLimitTokens]\<close>.\<close>

definition remainingXvsDailyLimit :: "bridge_form_input \<Rightarrow> bignumber \<times> bignumber" where
  "remainingXvsDailyLimit h =
     (case getXvsBridgeStatusData h of
        Some st \<Rightarrow>
          (let remainingUsdValue = bn_minus (maxDailyLimitUsd st) (totalTransferredLast24HourUsd st);
               remaningTokensAmount =
                 (if \<not> bn_isZero (xvsPriceUsd h)
                  then bn_dividedBy remainingUsdValue (xvsPriceUsd h)
                  else Fin 0)
           in (remainingUsdValue, remaningTokensAmount))
      | None \<Rightarrow> (Fin 0, Fin 0))"

definition remainingXvsDailyLimitUsd :: "bridge_form_input \<Rightarrow> bignumber" where
  "remainingXvsDailyLimitUsd h = fst (remainingXvsDailyLimit h)"

definition remainingXvsDailyLimitTokens :: "bridge_form_input \<Rightarrow> bignumber" where
  "remainingXvsDailyLimitTokens h = snd (remainingXvsDailyLimit h)"

subsection \<open>The two validators\<close>

text \<open>
  The argument of \<^verbatim>\<open>validateBridgeFeeMantissa\<close> has the type \<^verbatim>\<open>unknown\<close>: a
  \<^verbatim>\<open>BigNumber\<close>, or any other value (\<^verbatim>\<open>undefined\<close> while there is no estimate).
\<close>

datatype 'a unknown = IsBigNumber bignumber | NotBigNumber 'a

fun validateBridgeFeeMantissa :: "bridge_form_input \<Rightarrow> 'a unknown \<Rightarrow> bool" where
  "validateBridgeFeeMantissa h (IsBigNumber bridgeFeeMantissa) =
     (bn_gt bridgeFeeMantissa (Fin 0)
      \<and> bn_lte bridgeFeeMantissa (nativeTokenBalanceMantissa h))"
| "validateBridgeFeeMantissa h (NotBigNumber _) = True"

definition singleTransactionLimitExceeded_issue ::
  "'c externals \<Rightarrow> bridge_form_input \<Rightarrow> issue" where
  "singleTransactionLimitExceeded_issue ext h =
     (let maxSingleTransactionLimitTokens =
            bn_dividedBy (maxSingleTransactionLimitUsd h) (xvsPriceUsd h);
          readableAmountTokens =
            formatTokensToReadableValue ext maxSingleTransactionLimitTokens (xvs h);
          readableAmountUsd =
            formatCentsToReadableValue ext
              (convertDollarsToCents ext (maxSingleTransactionLimitUsd h))
      in \<lparr>code = ''custom'',
          message = t_translate ext ''bridgePage.errors.singleTransactionLimitExceeded.message''
            [(''readableAmountTokens'', TString readableAmountTokens),
             (''readableAmountUsd'', TString readableAmountUsd)],
          path = [''singleTransactionLimitExceeded'']\<rparr>)"

definition dailyTransactionLimitExceeded_issue ::
  "'c externals \<Rightarrow> bridge_form_input \<Rightarrow> issue" where
  "dailyTransactionLimitExceeded_issue ext h =
     (let readableAmountTokens =
            formatTokensToReadableValue ext (remainingXvsDailyLimitTokens h) (xvs h);
          readableAmountUsd =
            formatCentsToReadableValue ext
              (convertDollarsToCents ext (remainingXvsDailyLimitUsd h));
          date0 = fromUnixTime ext (toNumber ext (dailyLimitResetTimestamp h));
          date = setDate ext date0 (map_option (\<lambda>d. d + 1) (getDate ext date0))
      in \<lparr>code = ''custom'',
          message = t_translate ext ''bridgePage.errors.dailyTransactionLimitExceeded.message''
            [(''readableAmountTokens'', TString readableAmountTokens),
             (''readableAmountUsd'', TString readableAmountUsd),
             (''date'', TDate date)],
          path = [''dailyTransactionLimitExceeded'']\<rparr>)"

definition doesNotHaveEnoughXvs_issue ::
  "'c externals \<Rightarrow> bridge_form_input \<Rightarrow> issue" where
  "doesNotHaveEnoughXvs_issue ext h =
     \<lparr>code = ''custom'',
      message = t_translate ext ''bridgePage.errors.doesNotHaveEnoughXvs''
        [(''tokenSymbol'',
          case xvs h of Some tok \<Rightarrow> TString (symbol tok) | None \<Rightarrow> TUndefined)],
      path = [''doesNotHaveEnoughXvs'']\<rparr>"

text \<open>
  \<^verbatim>\<open>validateAmountMantissa(v, ctx)\<close>: the three conditions are computed from the parsed
  amount, and each one that holds adds its issue to the context, in this order. (The
  source divides the single-transaction limit by the price before it tests the
  condition; the division raises nothing and its result is read in the first branch
  only, where \<open>singleTransactionLimitExceeded_issue\<close> computes it.)
\<close>

definition xvsAmountTokens :: "'c externals \<Rightarrow> string \<Rightarrow> bignumber" where
  "xvsAmountTokens ext v = new_BigNumber (in_base ext) v"

definition xvsAmountUsd ::
  "'c externals \<Rightarrow> bridge_form_input \<Rightarrow> string \<Rightarrow> bignumber" where
  "xvsAmountUsd ext h v = bn_times (xvsAmountTokens ext v) (xvsPriceUsd h)"

definition validateAmountMantissa ::
  "'c externals \<Rightarrow> bridge_form_input \<Rightarrow> string \<Rightarrow> refinement_ctx \<Rightarrow> refinement_ctx"
  where
  "validateAmountMantissa ext h v ctx =
     (let isSingleTransactionLimitExceeded =
            bn_gt (xvsAmountUsd ext h v) (maxSingleTransactionLimitUsd h);
          doesNotHaveEnoughXvs = bn_lt (walletBalanceTokens h) (xvsAmountTokens ext v);
          ctx1 = (if isSingleTransactionLimitExceeded
                  then addIssue ctx (singleTransactionLimitExceeded_issue ext h) else ctx);
          isDailyTransactionLimitExceeded =
            bn_gt (xvsAmountUsd ext h v) (remainingXvsDailyLimitUsd h);
          ctx2 = (if isDailyTransactionLimitExceeded
                  then addIssue ctx1 (dailyTransactionLimitExceeded_issue ext h) else ctx1)
      in if doesNotHaveEnoughXvs
         then addIssue ctx2 (doesNotHaveEnoughXvs_issue ext h) else ctx2)"

subsection \<open>The field \<^verbatim>\<open>amountTokens\<close> of \<^verbatim>\<open>formSchema\<close>\<close>

text \<open>
  \<^verbatim>\<open>z.string().min(1)\<close>: a string shorter than one character gets the issue
  \<^verbatim>\<open>too_small\<close>; the check does not abort the parse.
\<close>

definition z_string_min_1 :: "string \<Rightarrow> issue list" where
  "z_string_min_1 v =
     (if length v < 1
      then [\<lparr>code = ''too_small'',
             message = ''String must contain at least 1 character(s)'',
             path = []\<rparr>]
      else [])"

text \<open>
  \<^verbatim>\<open>z.string().min(1).superRefine(validateAmountMantissa)\<close> under the key
  \<^verbatim>\<open>amountTokens\<close>: the issues of the length check, then those the refinement adds to
  a fresh context; the key is put in front of every path. The value is accepted when
  the list is empty.
\<close>

definition formSchema_amountTokens ::
  "'c externals \<Rightarrow> bridge_form_input \<Rightarrow> string \<Rightarrow> issue list" where
  "formSchema_amountTokens ext h v =
     map (\<lambda>i. i\<lparr>path := ''amountTokens'' # path i\<rparr>)
       (z_string_min_1 v @ validateAmountMantissa ext h v [])"

subsection \<open>Reading the result\<close>

text \<open>An issue list reports a violation when one of its issues has that path.\<close>

definition reports :: "string \<Rightarrow> issue list \<Rightarrow> bool" where
  "reports key issues = ([key] \<in> set (map path issues))"

text \<open>
  A concrete instance of the external functions, to run the model on examples: the
  translation writes its key and then every parameter, the formatting utilities write
  the number, and the local time zone is UTC. The examples read decimal strings and
  whole timestamps only, so the conversion of a literal with a base prefix and the two
  roundings are never called in them; they are filled with the simplest function.
\<close>

fun show_nat :: "nat \<Rightarrow> string" where
  "show_nat n =
     (if n < 10 then [''0123456789'' ! n]
      else show_nat (n div 10) @ [''0123456789'' ! (n mod 10)])"

declare show_nat.simps [simp del]

definition show_int :: "int \<Rightarrow> string" where
  "show_int i = (if i < 0 then CHR ''-'' # show_nat (nat (- i)) else show_nat (nat i))"

definition show_bignumber :: "bignumber \<Rightarrow> string" where
  "show_bignumber x =
     (case x of
        NaN \<Rightarrow> ''NaN''
      | PosInfinity \<Rightarrow> ''Infinity''
      | NegInfinity \<Rightarrow> ''-Infinity''
      | NegZero \<Rightarrow> ''-0''
      | Fin q \<Rightarrow>
          (let (n, d) = quotient_of q
           in show_int n @ (if d = 1 then [] else CHR ''/'' # show_int d)))"

definition show_t_value :: "t_value \<Rightarrow> string" where
  "show_t_value x =
     (case x of
        TString s \<Rightarrow> s
      | TDate None \<Rightarrow> ''Invalid Date''
      | TDate (Some t) \<Rightarrow> show_int t
      | TUndefined \<Rightarrow> ''undefined'')"

definition example_externals :: "bignumber externals" where
  "example_externals =
     \<lparr>in_base = (\<lambda>b s. NaN),
      t_translate = (\<lambda>key params.
        key @ concat (map (\<lambda>(k, x). '' '' @ k @ ''='' @ show_t_value x) params)),
      formatTokensToReadableValue = (\<lambda>x tok.
        show_bignumber x @ (case tok of Some k \<Rightarrow> CHR '' '' # symbol k | None \<Rightarrow> [])),
      formatCentsToReadableValue = (\<lambda>c. show_bignumber c @ '' cents''),
      convertDollarsToCents = (\<lambda>x. bn_times x (Fin 100)),
      nearest_double = (\<lambda>q. JNum q),
      fromUnixTime_fraction = (\<lambda>s. TimeClip \<lfloor>s * 1000\<rfloor>),
      LocalTZA = (\<lambda>t isUTC. 0)\<rparr>"

text \<open>
  The same with the time zone of central Europe around 29 October 2023, when the offset
  went from two hours to one at 01:00 UTC.
\<close>

definition example_externals_dst :: "bignumber externals" where
  "example_externals_dst =
     example_externals
       \<lparr>LocalTZA := (\<lambda>t isUTC.
          if (if isUTC then t else t - 7200000) < 1698541200000 then 7200000 else 3600000)\<rparr>"

definition example_status :: "rat \<Rightarrow> rat \<Rightarrow> rat \<Rightarrow> xvs_bridge_status" where
  "example_status single daily used =
     \<lparr>status_maxSingleTransactionLimitUsd = Fin single,
      maxDailyLimitUsd = Fin daily,
      totalTransferredLast24HourUsd = Fin used,
      status_dailyLimitResetTimestamp = Fin 1700000000\<rparr>"

definition example_input :: "rat \<Rightarrow> rat \<Rightarrow> xvs_bridge_status \<Rightarrow> bridge_form_input" where
  "example_input balance price st =
     \<lparr>walletBalanceTokens = Fin balance,
      xvs = Some \<lparr>symbol = ''XVS''\<rparr>,
      getTokenUsdPriceData = Some (Fin price),
      getXvsBridgeStatusData = Some st,
      getBalanceOfNativeTokenData = Some (Fin 5)\<rparr>"

section \<open>Facts about the decimal library\<close>

text \<open>Values of ordinary size are neither turned into an infinity nor into zero.\<close>

lemma bn_normalise_small:
  assumes "q = 0 \<or> 1 / 10 ^ 30 \<le> \<bar>q\<bar>" and "\<bar>q\<bar> < 10 ^ 30"
  shows "bn_normalise q = Fin q"
proof (cases "q = 0")
  case True
  have "\<not> (10::rat) ^ (MAX_EXP + 1) \<le> 0" by (simp add: not_le)
  with True show ?thesis by (simp add: bn_normalise_def bn_signed_zero_def)
next
  case False
  with assms have low: "1 / 10 ^ 30 \<le> \<bar>q\<bar>" by simp
  have up: "(10::rat) ^ 30 \<le> 10 ^ (MAX_EXP + 1)"
    by (rule power_increasing) (simp_all add: MAX_EXP_def)
  have mid: "(10::rat) ^ 30 \<le> 10 ^ MAX_EXP"
    by (rule power_increasing) (simp_all add: MAX_EXP_def)
  have "1 \<le> \<bar>q\<bar> * 10 ^ 30" using low by (simp add: field_simps)
  also have "\<dots> \<le> \<bar>q\<bar> * 10 ^ MAX_EXP" using mid by (intro mult_left_mono) simp_all
  finally have no_underflow: "\<not> \<bar>q\<bar> * 10 ^ MAX_EXP < 1" by simp
  from assms(2) up have no_overflow: "\<not> 10 ^ (MAX_EXP + 1) \<le> \<bar>q\<bar>" by linarith
  show ?thesis unfolding bn_normalise_def using no_underflow no_overflow by simp
qed

lemma bn_lte_not_gt: "bn_lte x y \<Longrightarrow> \<not> bn_gt x y"
  by (auto simp: bn_lte_def bn_gt_def split: option.splits)

lemma bn_lte_not_lt: "bn_lte x y \<Longrightarrow> \<not> bn_lt y x"
  by (cases x; cases y) (auto simp: bn_lte_def bn_lt_def split: if_splits)

lemmas parser_defs = new_BigNumber_def parseNumeric_def parse_decimal_def split_sign_def
  parse_mantissa_def parse_exponent_def is_digit_def digits_value_def pow10_def
  strip_whitespaceOrPlus_def isInfinityOrNaN_def basePrefix_def is_whitespace_def is_word_def

lemma new_BigNumber_50: "new_BigNumber f ''50'' = Fin 50"
  by (simp add: parser_defs bn_normalise_small)

lemma new_BigNumber_5000: "new_BigNumber f ''5000'' = Fin 5000"
  by (simp add: parser_defs bn_normalise_small)

lemma new_BigNumber_minus_5: "new_BigNumber f ''-5'' = Fin (- 5)"
  by (simp add: parser_defs bn_normalise_small)

lemma new_BigNumber_abc: "new_BigNumber f ''abc'' = NaN"
  by (simp add: parser_defs)

lemma new_BigNumber_empty: "new_BigNumber f [] = NaN"
  by (simp add: parser_defs)

section \<open>The amount validator\<close>

text \<open>On a fresh context the validator returns its three issues, each under its condition.\<close>

lemma validateAmountMantissa_fresh:
  "validateAmountMantissa ext h v [] =
     (if bn_gt (xvsAmountUsd ext h v) (maxSingleTransactionLimitUsd h)
      then [singleTransactionLimitExceeded_issue ext h] else [])
     @ (if bn_gt (xvsAmountUsd ext h v) (remainingXvsDailyLimitUsd h)
        then [dailyTransactionLimitExceeded_issue ext h] else [])
     @ (if bn_lt (walletBalanceTokens h) (xvsAmountTokens ext v)
        then [doesNotHaveEnoughXvs_issue ext h] else [])"
  by (simp add: validateAmountMantissa_def addIssue_def Let_def)

lemma path_issues [simp]:
  "path (singleTransactionLimitExceeded_issue ext h) = [''singleTransactionLimitExceeded'']"
  "path (dailyTransactionLimitExceeded_issue ext h) = [''dailyTransactionLimitExceeded'']"
  "path (doesNotHaveEnoughXvs_issue ext h) = [''doesNotHaveEnoughXvs'']"
  by (simp_all add: singleTransactionLimitExceeded_issue_def
      dailyTransactionLimitExceeded_issue_def doesNotHaveEnoughXvs_issue_def Let_def)

lemma xvsAmountTokens_50 [simp]: "xvsAmountTokens ext ''50'' = Fin 50"
  by (simp add: xvsAmountTokens_def new_BigNumber_50)

lemma xvsAmountTokens_5000 [simp]: "xvsAmountTokens ext ''5000'' = Fin 5000"
  by (simp add: xvsAmountTokens_def new_BigNumber_5000)

lemma xvsAmountTokens_minus_5 [simp]: "xvsAmountTokens ext ''-5'' = Fin (- 5)"
  by (simp add: xvsAmountTokens_def new_BigNumber_minus_5)

lemma xvsAmountTokens_abc [simp]: "xvsAmountTokens ext ''abc'' = NaN"
  by (simp add: xvsAmountTokens_def new_BigNumber_abc)

text \<open>
  Claim C1. When the USD value of the amount, as the validator computes it, is at most
  the single-transaction limit and at most the remaining daily limit, and the amount is
  at most the wallet balance, the validator adds no issue: the amount is valid.
\<close>

theorem within_limits_no_violation:
  assumes "bn_lte (xvsAmountUsd ext h v) (maxSingleTransactionLimitUsd h)"
    and "bn_lte (xvsAmountUsd ext h v) (remainingXvsDailyLimitUsd h)"
    and "bn_lte (xvsAmountTokens ext v) (walletBalanceTokens h)"
  shows "validateAmountMantissa ext h v [] = []"
  using assms by (simp add: validateAmountMantissa_fresh bn_lte_not_gt bn_lte_not_lt)

text \<open>
  The scenario of the specification: balance 100, amount 50, price 1, single limit
  1000, daily limit 1000, nothing used.
\<close>

theorem within_limits_no_violation_witness:
  "bn_lte (xvsAmountUsd example_externals (example_input 100 1 (example_status 1000 1000 0)) ''50'')
      (maxSingleTransactionLimitUsd (example_input 100 1 (example_status 1000 1000 0)))
   \<and> bn_lte (xvsAmountUsd example_externals (example_input 100 1 (example_status 1000 1000 0)) ''50'')
      (remainingXvsDailyLimitUsd (example_input 100 1 (example_status 1000 1000 0)))
   \<and> bn_lte (xvsAmountTokens example_externals ''50'')
      (walletBalanceTokens (example_input 100 1 (example_status 1000 1000 0)))
   \<and> validateAmountMantissa example_externals
        (example_input 100 1 (example_status 1000 1000 0)) ''50'' [] = []"
proof -
  let ?h = "example_input 100 1 (example_status 1000 1000 0)"
  have usd: "xvsAmountUsd example_externals ?h ''50'' = Fin 50"
    by (simp add: xvsAmountUsd_def xvsPriceUsd_def example_input_def bn_normalise_small)
  have single: "maxSingleTransactionLimitUsd ?h = Fin 1000"
    by (simp add: maxSingleTransactionLimitUsd_def example_input_def example_status_def)
  have daily: "remainingXvsDailyLimitUsd ?h = Fin 1000"
    by (simp add: remainingXvsDailyLimitUsd_def remainingXvsDailyLimit_def example_input_def
        example_status_def Let_def bn_normalise_small)
  have balance: "walletBalanceTokens ?h = Fin 100"
    by (simp add: example_input_def)
  have h1: "bn_lte (xvsAmountUsd example_externals ?h ''50'') (maxSingleTransactionLimitUsd ?h)"
    by (simp add: usd single bn_lte_def)
  have h2: "bn_lte (xvsAmountUsd example_externals ?h ''50'') (remainingXvsDailyLimitUsd ?h)"
    by (simp add: usd daily bn_lte_def)
  have h3: "bn_lte (xvsAmountTokens example_externals ''50'') (walletBalanceTokens ?h)"
    by (simp add: balance bn_lte_def)
  from within_limits_no_violation [OF h1 h2 h3] h1 h2 h3 show ?thesis by simp
qed

lemma reports_validateAmountMantissa:
  "reports key (validateAmountMantissa ext h v []) =
     (key = ''singleTransactionLimitExceeded''
        \<and> bn_gt (xvsAmountUsd ext h v) (maxSingleTransactionLimitUsd h)
      \<or> key = ''dailyTransactionLimitExceeded''
        \<and> bn_gt (xvsAmountUsd ext h v) (remainingXvsDailyLimitUsd h)
      \<or> key = ''doesNotHaveEnoughXvs''
        \<and> bn_lt (walletBalanceTokens h) (xvsAmountTokens ext v))"
  by (auto simp: reports_def validateAmountMantissa_fresh)

lemma remainingXvsDailyLimitUsd_Some:
  "getXvsBridgeStatusData h = Some st \<Longrightarrow>
     remainingXvsDailyLimitUsd h = bn_minus (maxDailyLimitUsd st) (totalTransferredLast24HourUsd st)"
  by (simp add: remainingXvsDailyLimitUsd_def remainingXvsDailyLimit_def Let_def)

text \<open>
  Claim C2. The validator reports the single-transaction violation exactly when the
  amount times the token price is greater than the single-transaction limit. In the
  scenario balance 100, amount 50, price 30, single limit 1000, whatever the other
  inputs are, the amount is worth 1500 USD and the violation is reported.
\<close>

theorem single_limit_exceeded_iff:
  "(reports ''singleTransactionLimitExceeded'' (validateAmountMantissa ext h v [])
      = bn_gt (bn_times (xvsAmountTokens ext v) (xvsPriceUsd h)) (maxSingleTransactionLimitUsd h))
   \<and> xvsAmountUsd ext
        \<lparr>walletBalanceTokens = Fin 100, xvs = tok, getTokenUsdPriceData = Some (Fin 30),
         getXvsBridgeStatusData = Some
           \<lparr>status_maxSingleTransactionLimitUsd = Fin 1000, maxDailyLimitUsd = daily,
            totalTransferredLast24HourUsd = used, status_dailyLimitResetTimestamp = reset\<rparr>,
         getBalanceOfNativeTokenData = native\<rparr> ''50'' = Fin 1500
   \<and> reports ''singleTransactionLimitExceeded''
        (validateAmountMantissa ext
          \<lparr>walletBalanceTokens = Fin 100, xvs = tok, getTokenUsdPriceData = Some (Fin 30),
           getXvsBridgeStatusData = Some
             \<lparr>status_maxSingleTransactionLimitUsd = Fin 1000, maxDailyLimitUsd = daily,
              totalTransferredLast24HourUsd = used, status_dailyLimitResetTimestamp = reset\<rparr>,
           getBalanceOfNativeTokenData = native\<rparr> ''50'' [])"
  by (simp add: reports_validateAmountMantissa xvsAmountUsd_def xvsPriceUsd_def
      maxSingleTransactionLimitUsd_def bn_normalise_small bn_gt_def)

text \<open>The scenario of C2 on concrete inputs, and the same inputs at price 1.\<close>

theorem single_limit_exceeded_iff_witness:
  "reports ''singleTransactionLimitExceeded''
     (validateAmountMantissa example_externals
        (example_input 100 30 (example_status 1000 1000 0)) ''50'' [])
   \<and> \<not> reports ''singleTransactionLimitExceeded''
     (validateAmountMantissa example_externals
        (example_input 100 1 (example_status 1000 1000 0)) ''50'' [])"
  using single_limit_exceeded_iff [of example_externals "example_input 100 30 (example_status 1000 1000 0)" "''50''"]
    single_limit_exceeded_iff [of example_externals "example_input 100 1 (example_status 1000 1000 0)" "''50''"]
  by (simp add: xvsPriceUsd_def maxSingleTransactionLimitUsd_def example_input_def
      example_status_def bn_normalise_small bn_gt_def)

text \<open>
  Claim C3. With the bridge status loaded, the remaining daily limit is the daily limit
  minus the amount transferred in the last 24 hours, and the validator reports the
  daily violation exactly when the amount times the token price is greater than it. In
  the scenario balance 100, amount 50, price 1, daily limit 1000, 980 used, the
  remaining limit is 20 USD and the violation is reported.
\<close>

theorem daily_limit_exceeded_iff:
  assumes "getXvsBridgeStatusData h = Some st"
  shows "remainingXvsDailyLimitUsd h
           = bn_minus (maxDailyLimitUsd st) (totalTransferredLast24HourUsd st)
   \<and> (reports ''dailyTransactionLimitExceeded'' (validateAmountMantissa ext h v [])
        = bn_gt (bn_times (xvsAmountTokens ext v) (xvsPriceUsd h))
            (remainingXvsDailyLimitUsd h))
   \<and> (reports ''dailyTransactionLimitExceeded'' (validateAmountMantissa ext h v [])
        = bn_gt (bn_times (xvsAmountTokens ext v) (xvsPriceUsd h))
            (bn_minus (maxDailyLimitUsd st) (totalTransferredLast24HourUsd st)))
   \<and> remainingXvsDailyLimitUsd
        \<lparr>walletBalanceTokens = Fin 100, xvs = tok, getTokenUsdPriceData = Some (Fin 1),
         getXvsBridgeStatusData = Some
           \<lparr>status_maxSingleTransactionLimitUsd = single, maxDailyLimitUsd = Fin 1000,
            totalTransferredLast24HourUsd = Fin 980, status_dailyLimitResetTimestamp = reset\<rparr>,
         getBalanceOfNativeTokenData = native\<rparr> = Fin 20
   \<and> reports ''dailyTransactionLimitExceeded''
        (validateAmountMantissa ext
          \<lparr>walletBalanceTokens = Fin 100, xvs = tok, getTokenUsdPriceData = Some (Fin 1),
           getXvsBridgeStatusData = Some
             \<lparr>status_maxSingleTransactionLimitUsd = single, maxDailyLimitUsd = Fin 1000,
              totalTransferredLast24HourUsd = Fin 980, status_dailyLimitResetTimestamp = reset\<rparr>,
           getBalanceOfNativeTokenData = native\<rparr> ''50'' [])"
  using assms
  by (simp add: reports_validateAmountMantissa remainingXvsDailyLimitUsd_Some xvsAmountUsd_def
      xvsPriceUsd_def bn_normalise_small bn_gt_def)

text \<open>The scenario of C3 on concrete inputs.\<close>

theorem daily_limit_exceeded_iff_witness:
  "getXvsBridgeStatusData (example_input 100 1 (example_status 1000 1000 980))
     = Some (example_status 1000 1000 980)
   \<and> remainingXvsDailyLimitUsd (example_input 100 1 (example_status 1000 1000 980)) = Fin 20
   \<and> reports ''dailyTransactionLimitExceeded''
     (validateAmountMantissa example_externals
        (example_input 100 1 (example_status 1000 1000 980)) ''50'' [])"
proof -
  have st: "getXvsBridgeStatusData (example_input 100 1 (example_status 1000 1000 980))
     = Some (example_status 1000 1000 980)"
    by (simp add: example_input_def)
  from daily_limit_exceeded_iff [OF st, of example_externals "''50''"] st show ?thesis
    by (simp add: xvsPriceUsd_def example_input_def example_status_def bn_normalise_small
        bn_gt_def)
qed

text \<open>
  Claim C4. The validator reports the balance violation exactly when the wallet balance
  is less than the amount. With balance 10 and amount 50, when the value of the amount
  is within the single-transaction limit and the remaining daily limit, the balance
  violation is the only issue.
\<close>

theorem insufficient_balance_iff:
  "(reports ''doesNotHaveEnoughXvs'' (validateAmountMantissa ext h v [])
      = bn_lt (walletBalanceTokens h) (xvsAmountTokens ext v))
   \<and> (walletBalanceTokens h = Fin 10
        \<and> bn_lte (xvsAmountUsd ext h ''50'') (maxSingleTransactionLimitUsd h)
        \<and> bn_lte (xvsAmountUsd ext h ''50'') (remainingXvsDailyLimitUsd h)
      \<longrightarrow> validateAmountMantissa ext h ''50'' [] = [doesNotHaveEnoughXvs_issue ext h])"
proof (intro conjI impI)
  show "reports ''doesNotHaveEnoughXvs'' (validateAmountMantissa ext h v [])
      = bn_lt (walletBalanceTokens h) (xvsAmountTokens ext v)"
    by (simp add: reports_validateAmountMantissa)
next
  assume "walletBalanceTokens h = Fin 10
        \<and> bn_lte (xvsAmountUsd ext h ''50'') (maxSingleTransactionLimitUsd h)
        \<and> bn_lte (xvsAmountUsd ext h ''50'') (remainingXvsDailyLimitUsd h)"
  then show "validateAmountMantissa ext h ''50'' [] = [doesNotHaveEnoughXvs_issue ext h]"
    by (simp add: validateAmountMantissa_fresh bn_lte_not_gt bn_lt_def)
qed

text \<open>The scenario of C4 on concrete inputs.\<close>

theorem insufficient_balance_iff_witness:
  "walletBalanceTokens (example_input 10 1 (example_status 1000 1000 0)) = Fin 10
   \<and> bn_lte (xvsAmountUsd example_externals (example_input 10 1 (example_status 1000 1000 0)) ''50'')
       (maxSingleTransactionLimitUsd (example_input 10 1 (example_status 1000 1000 0)))
   \<and> bn_lte (xvsAmountUsd example_externals (example_input 10 1 (example_status 1000 1000 0)) ''50'')
       (remainingXvsDailyLimitUsd (example_input 10 1 (example_status 1000 1000 0)))
   \<and> map path (validateAmountMantissa example_externals
        (example_input 10 1 (example_status 1000 1000 0)) ''50'' []) = [[''doesNotHaveEnoughXvs'']]"
proof -
  let ?h = "example_input 10 1 (example_status 1000 1000 0)"
  have usd: "xvsAmountUsd example_externals ?h ''50'' = Fin 50"
    by (simp add: xvsAmountUsd_def xvsPriceUsd_def example_input_def bn_normalise_small)
  have single: "maxSingleTransactionLimitUsd ?h = Fin 1000"
    by (simp add: maxSingleTransactionLimitUsd_def example_input_def example_status_def)
  have daily: "remainingXvsDailyLimitUsd ?h = Fin 1000"
    by (simp add: remainingXvsDailyLimitUsd_def remainingXvsDailyLimit_def example_input_def
        example_status_def Let_def bn_normalise_small)
  have h0: "walletBalanceTokens ?h = Fin 10"
    by (simp add: example_input_def)
  have h1: "bn_lte (xvsAmountUsd example_externals ?h ''50'') (maxSingleTransactionLimitUsd ?h)"
    by (simp add: usd single bn_lte_def)
  have h2: "bn_lte (xvsAmountUsd example_externals ?h ''50'') (remainingXvsDailyLimitUsd ?h)"
    by (simp add: usd daily bn_lte_def)
  from insufficient_balance_iff [of example_externals ?h "''50''"] h0 h1 h2 show ?thesis by simp
qed

text \<open>
  Claim C5. The three conditions are tested one after the other and none hides another:
  the result holds the issue of every condition that is true. With balance 10, amount
  5000, price 1, single limit 100 and an infinite daily limit, the result holds the
  single-transaction violation and the balance violation.
\<close>

theorem violations_reported_together:
  "validateAmountMantissa ext h v [] =
     (if bn_gt (xvsAmountUsd ext h v) (maxSingleTransactionLimitUsd h)
      then [singleTransactionLimitExceeded_issue ext h] else [])
     @ (if bn_gt (xvsAmountUsd ext h v) (remainingXvsDailyLimitUsd h)
        then [dailyTransactionLimitExceeded_issue ext h] else [])
     @ (if bn_lt (walletBalanceTokens h) (xvsAmountTokens ext v)
        then [doesNotHaveEnoughXvs_issue ext h] else [])
   \<and> map path (validateAmountMantissa ext
        \<lparr>walletBalanceTokens = Fin 10, xvs = tok, getTokenUsdPriceData = Some (Fin 1),
         getXvsBridgeStatusData = Some
           \<lparr>status_maxSingleTransactionLimitUsd = Fin 100, maxDailyLimitUsd = PosInfinity,
            totalTransferredLast24HourUsd = Fin used, status_dailyLimitResetTimestamp = reset\<rparr>,
         getBalanceOfNativeTokenData = native\<rparr> ''5000'' [])
       = [[''singleTransactionLimitExceeded''], [''doesNotHaveEnoughXvs'']]"
  by (simp add: validateAmountMantissa_fresh xvsAmountUsd_def xvsPriceUsd_def
      maxSingleTransactionLimitUsd_def remainingXvsDailyLimitUsd_Some bn_normalise_small
      bn_gt_def bn_lt_def)

text \<open>The scenario of C5 on concrete inputs, and one where all three conditions hold.\<close>

theorem violations_reported_together_witness:
  "map path (validateAmountMantissa example_externals
      (example_input 10 1 ((example_status 100 0 0)\<lparr>maxDailyLimitUsd := PosInfinity\<rparr>))
      ''5000'' [])
     = [[''singleTransactionLimitExceeded''], [''doesNotHaveEnoughXvs'']]
   \<and> map path (validateAmountMantissa example_externals
      (example_input 10 1 (example_status 100 1000 980)) ''5000'' [])
     = [[''singleTransactionLimitExceeded''], [''dailyTransactionLimitExceeded''],
        [''doesNotHaveEnoughXvs'']]"
  using violations_reported_together [of example_externals
      "example_input 10 1 ((example_status 100 0 0)\<lparr>maxDailyLimitUsd := PosInfinity\<rparr>)"
      "''5000''"]
    violations_reported_together [of example_externals
      "example_input 10 1 (example_status 100 1000 980)" "''5000''"]
  by (simp add: xvsAmountUsd_def xvsPriceUsd_def maxSingleTransactionLimitUsd_def
      remainingXvsDailyLimitUsd_Some example_input_def example_status_def bn_normalise_small
      bn_gt_def bn_lt_def)

section \<open>Negative amounts\<close>

lemma bn_normalise_negative:
  assumes "q < 0"
  shows "bn_compare (bn_normalise q) (Fin 0) \<noteq> Some 1"
  using assms by (simp add: bn_normalise_def bn_signed_infinity_def bn_signed_zero_def)

text \<open>A negative amount times a non-negative price is NaN or at most zero.\<close>

lemma bn_times_negative_nonnegative:
  assumes "bn_lt a (Fin 0)" and "bn_gte p (Fin 0)"
  shows "bn_compare (bn_times a p) (Fin 0) \<noteq> Some 1"
proof (cases a)
  case (Fin x)
  with assms(1) have x: "x < 0" by (simp add: bn_lt_def split: if_splits)
  show ?thesis
  proof (cases p)
    case (Fin y)
    with assms(2) have "0 \<le> y" by (simp add: bn_gte_def split: if_splits)
    show ?thesis
    proof (cases "y = 0")
      case True
      with \<open>a = Fin x\<close> \<open>p = Fin y\<close> x show ?thesis by (simp add: bn_signed_zero_def)
    next
      case False
      with \<open>0 \<le> y\<close> x have "x * y < 0" by (simp add: mult_neg_pos)
      from bn_normalise_negative [OF this] \<open>a = Fin x\<close> \<open>p = Fin y\<close> x False
      show ?thesis by simp
    qed
  next
    case NegZero
    with \<open>a = Fin x\<close> x show ?thesis by (simp add: bn_signed_zero_def)
  next
    case PosInfinity
    with \<open>a = Fin x\<close> x show ?thesis by (simp add: bn_signed_infinity_def)
  qed (use assms(2) in \<open>simp_all add: bn_gte_def\<close>)
next
  case NegInfinity
  show ?thesis
  proof (cases p)
    case (Fin y)
    with assms(2) have "0 \<le> y" by (simp add: bn_gte_def split: if_splits)
    with NegInfinity Fin show ?thesis by (simp add: bn_signed_infinity_def)
  next
    case NegZero
    with NegInfinity show ?thesis by simp
  next
    case PosInfinity
    with NegInfinity show ?thesis by (simp add: bn_signed_infinity_def)
  qed (use assms(2) in \<open>simp_all add: bn_gte_def\<close>)
qed (use assms(1) in \<open>simp_all add: bn_lt_def\<close>)

lemma nonpositive_not_gt_nonnegative:
  assumes "bn_compare x (Fin 0) \<noteq> Some 1" and "bn_gte l (Fin 0)"
  shows "\<not> bn_gt x l"
  using assms by (cases x; cases l) (auto simp: bn_gt_def bn_gte_def split: if_splits)

lemma nonnegative_not_lt_negative:
  assumes "bn_lt a (Fin 0)" and "bn_gte b (Fin 0)"
  shows "\<not> bn_lt b a"
  using assms by (cases a; cases b) (auto simp: bn_lt_def bn_gte_def split: if_splits)

text \<open>
  Claim C9. A negative amount (minus infinity included) with a non-negative wallet
  balance, token price, single-transaction limit and remaining daily limit gets no
  issue: the validator neither clamps nor rejects it.
\<close>

theorem negative_amount_passes:
  assumes "bn_lt (xvsAmountTokens ext v) (Fin 0)"
    and "bn_gte (walletBalanceTokens h) (Fin 0)"
    and "bn_gte (xvsPriceUsd h) (Fin 0)"
    and "bn_gte (maxSingleTransactionLimitUsd h) (Fin 0)"
    and "bn_gte (remainingXvsDailyLimitUsd h) (Fin 0)"
  shows "validateAmountMantissa ext h v [] = []"
proof -
  have usd: "bn_compare (xvsAmountUsd ext h v) (Fin 0) \<noteq> Some 1"
    unfolding xvsAmountUsd_def by (rule bn_times_negative_nonnegative [OF assms(1) assms(3)])
  have "\<not> bn_gt (xvsAmountUsd ext h v) (maxSingleTransactionLimitUsd h)"
    by (rule nonpositive_not_gt_nonnegative [OF usd assms(4)])
  moreover have "\<not> bn_gt (xvsAmountUsd ext h v) (remainingXvsDailyLimitUsd h)"
    by (rule nonpositive_not_gt_nonnegative [OF usd assms(5)])
  moreover have "\<not> bn_lt (walletBalanceTokens h) (xvsAmountTokens ext v)"
    by (rule nonnegative_not_lt_negative [OF assms(1) assms(2)])
  ultimately show ?thesis by (simp add: validateAmountMantissa_fresh)
qed

text \<open>The amount \<open>-5\<close> with balance 100, price 1 and both limits 1000.\<close>

theorem negative_amount_passes_witness:
  "bn_lt (xvsAmountTokens example_externals ''-5'') (Fin 0)
   \<and> bn_gte (walletBalanceTokens (example_input 100 1 (example_status 1000 1000 0))) (Fin 0)
   \<and> bn_gte (xvsPriceUsd (example_input 100 1 (example_status 1000 1000 0))) (Fin 0)
   \<and> bn_gte (maxSingleTransactionLimitUsd (example_input 100 1 (example_status 1000 1000 0))) (Fin 0)
   \<and> bn_gte (remainingXvsDailyLimitUsd (example_input 100 1 (example_status 1000 1000 0))) (Fin 0)
   \<and> validateAmountMantissa example_externals
       (example_input 100 1 (example_status 1000 1000 0)) ''-5'' [] = []"
proof -
  let ?h = "example_input 100 1 (example_status 1000 1000 0)"
  have h1: "bn_lt (xvsAmountTokens example_externals ''-5'') (Fin 0)"
    by (simp add: bn_lt_def)
  have h2: "bn_gte (walletBalanceTokens ?h) (Fin 0)"
    by (simp add: example_input_def bn_gte_def)
  have h3: "bn_gte (xvsPriceUsd ?h) (Fin 0)"
    by (simp add: xvsPriceUsd_def example_input_def bn_gte_def)
  have h4: "bn_gte (maxSingleTransactionLimitUsd ?h) (Fin 0)"
    by (simp add: maxSingleTransactionLimitUsd_def example_input_def example_status_def bn_gte_def)
  have h5: "bn_gte (remainingXvsDailyLimitUsd ?h) (Fin 0)"
    by (simp add: remainingXvsDailyLimitUsd_def remainingXvsDailyLimit_def example_input_def
        example_status_def Let_def bn_normalise_small bn_gte_def)
  from negative_amount_passes [OF h1 h2 h3 h4 h5] h1 h2 h3 h4 h5 show ?thesis by simp
qed

section \<open>The bridge fee\<close>

text \<open>
  Claim C10. \<open>validateBridgeFeeMantissa\<close> is true of every value that is not a
  \<^verbatim>\<open>BigNumber\<close>; of a \<^verbatim>\<open>BigNumber\<close> fee it is true exactly when the fee is greater than
  zero and at most the native-token balance. For a finite fee \<open>f\<close> and a loaded finite
  balance \<open>b\<close> this is \<open>0 < f \<and> f \<le> b\<close>, and a NaN fee fails.
\<close>

theorem bridge_fee_check:
  "validateBridgeFeeMantissa h (NotBigNumber x)
   \<and> (validateBridgeFeeMantissa h (IsBigNumber fee :: 'a unknown)
        = (bn_gt fee (Fin 0) \<and> bn_lte fee (nativeTokenBalanceMantissa h)))
   \<and> (getBalanceOfNativeTokenData h = Some (Fin b) \<longrightarrow>
        validateBridgeFeeMantissa h (IsBigNumber (Fin f) :: 'a unknown) = (0 < f \<and> f \<le> b))
   \<and> \<not> validateBridgeFeeMantissa h (IsBigNumber NaN :: 'a unknown)"
  by (auto simp: nativeTokenBalanceMantissa_def bn_gt_def bn_lte_def split: if_splits)

text \<open>With a native balance of 5: no estimate passes, a fee of 5 passes, 0 and 6 fail.\<close>

theorem bridge_fee_check_witness:
  "getBalanceOfNativeTokenData (example_input 100 1 (example_status 1000 1000 0)) = Some (Fin 5)
   \<and> validateBridgeFeeMantissa (example_input 100 1 (example_status 1000 1000 0)) (NotBigNumber ())
   \<and> validateBridgeFeeMantissa (example_input 100 1 (example_status 1000 1000 0))
       (IsBigNumber (Fin 5) :: unit unknown)
   \<and> \<not> validateBridgeFeeMantissa (example_input 100 1 (example_status 1000 1000 0))
       (IsBigNumber (Fin 0) :: unit unknown)
   \<and> \<not> validateBridgeFeeMantissa (example_input 100 1 (example_status 1000 1000 0))
       (IsBigNumber (Fin 6) :: unit unknown)"
proof -
  let ?h = "example_input 100 1 (example_status 1000 1000 0)"
  have b: "getBalanceOfNativeTokenData ?h = Some (Fin 5)"
    by (simp add: example_input_def)
  from bridge_fee_check [of ?h "()" _ 5 5] bridge_fee_check [of ?h "()" _ 5 0] bridge_fee_check [of ?h "()" _ 5 6] b
  show ?thesis by simp
qed

section \<open>The remaining daily limit\<close>

text \<open>Rounding leaves an integer as it is.\<close>

lemma floor_add_half: "\<lfloor>(of_int n :: rat) + 1 / 2\<rfloor> = n"
  by (rule floor_unique) simp_all

lemma bn_round_half_up_int: "bn_round_half_up dp (of_int k) = of_int k"
proof -
  have scaled: "\<lfloor>(of_int m :: rat) * 10 ^ dp + 1 / 2\<rfloor> = m * 10 ^ dp" for m
  proof -
    have "(of_int m :: rat) * 10 ^ dp = of_int (m * 10 ^ dp)" by simp
    then show ?thesis by (simp only: floor_add_half)
  qed
  show ?thesis
  proof (cases "(of_int k :: rat) < 0")
    case True
    have "- (of_int k :: rat) = of_int (- k)" by simp
    then have "\<lfloor>- (of_int k :: rat) * 10 ^ dp + 1 / 2\<rfloor> = (- k) * 10 ^ dp"
      by (simp only: scaled)
    with True show ?thesis by (simp add: bn_round_half_up_def)
  next
    case False
    with scaled [of k] show ?thesis by (simp add: bn_round_half_up_def)
  qed
qed

lemma bn_round_half_up_numeral [simp]:
  "bn_round_half_up dp (numeral n) = numeral n"
  "bn_round_half_up dp (- numeral n) = - numeral n"
  "bn_round_half_up dp 0 = 0"
  using bn_round_half_up_int [of dp "numeral n"] bn_round_half_up_int [of dp "- numeral n"]
    bn_round_half_up_int [of dp 0]
  by simp_all

lemma bn_dividedBy_1000_minus_2: "bn_dividedBy (Fin 1000) (Fin (- 2)) = Fin (- 500)"
  by (simp add: bn_normalise_small)

lemma bn_dividedBy_zero_positive:
  assumes "bn_gt p (Fin 0)"
  shows "bn_dividedBy (Fin 0) p = Fin 0"
proof (cases p)
  case (Fin y)
  with assms have "0 < y" by (simp add: bn_gt_def split: if_splits)
  then show ?thesis using Fin by (simp add: bn_signed_zero_def)
qed (use assms in \<open>simp_all add: bn_gt_def bn_signed_zero_def\<close>)

text \<open>
  Claim C6 says that the remaining daily limit in tokens is the remaining USD limit
  divided by the price when the price is greater than zero, and zero otherwise. The
  hook tests \<^verbatim>\<open>!xvsPriceUsd.isZero()\<close>, so at a price of \<open>-2\<close> with 1000 USD left it
  divides: the price is not greater than zero and the result is \<open>-500\<close>, not zero.
\<close>

theorem remaining_daily_tokens_negative_price:
  "\<not> bn_gt (xvsPriceUsd (example_input 100 (- 2) (example_status 1000 1000 0))) (Fin 0)
   \<and> remainingXvsDailyLimitUsd (example_input 100 (- 2) (example_status 1000 1000 0)) = Fin 1000
   \<and> remainingXvsDailyLimitTokens (example_input 100 (- 2) (example_status 1000 1000 0))
       = Fin (- 500)
   \<and> remainingXvsDailyLimitTokens (example_input 100 (- 2) (example_status 1000 1000 0)) \<noteq> Fin 0"
  by (simp add: remainingXvsDailyLimitTokens_def remainingXvsDailyLimitUsd_def
      remainingXvsDailyLimit_def xvsPriceUsd_def example_input_def example_status_def Let_def
      bn_normalise_small bn_dividedBy_1000_minus_2 bn_gt_def)

text \<open>
  Claim C6, amended. With the bridge status loaded, the remaining USD limit is the
  daily limit minus the amount transferred, and the remaining limit in tokens is zero
  when the price is zero and the \<^verbatim>\<open>BigNumber\<close> quotient of the remaining USD limit by the
  price for every other price (negative and NaN included). Without a loaded status
  both values are zero. For every input, a price greater than zero gives the quotient
  and a price of zero gives zero; the division is not called at a price of zero.
\<close>

theorem remaining_daily_tokens_by_price:
  "(getXvsBridgeStatusData h = Some st \<longrightarrow>
      remainingXvsDailyLimitUsd h
        = bn_minus (maxDailyLimitUsd st) (totalTransferredLast24HourUsd st)
      \<and> remainingXvsDailyLimitTokens h
        = (if bn_isZero (xvsPriceUsd h) then Fin 0
           else bn_dividedBy (remainingXvsDailyLimitUsd h) (xvsPriceUsd h)))
   \<and> (getXvsBridgeStatusData h = None \<longrightarrow>
        remainingXvsDailyLimitUsd h = Fin 0 \<and> remainingXvsDailyLimitTokens h = Fin 0)
   \<and> (bn_gt (xvsPriceUsd h) (Fin 0) \<longrightarrow>
        remainingXvsDailyLimitTokens h
          = bn_dividedBy (remainingXvsDailyLimitUsd h) (xvsPriceUsd h))
   \<and> (xvsPriceUsd h = Fin 0 \<longrightarrow> remainingXvsDailyLimitTokens h = Fin 0)"
proof (cases "getXvsBridgeStatusData h")
  case None
  then have "remainingXvsDailyLimit h = (Fin 0, Fin 0)"
    by (simp add: remainingXvsDailyLimit_def)
  with None show ?thesis
    by (simp add: remainingXvsDailyLimitUsd_def remainingXvsDailyLimitTokens_def
        bn_dividedBy_zero_positive)
next
  case (Some st')
  have pos: "bn_gt p (Fin 0) \<Longrightarrow> \<not> bn_isZero p" for p
    by (cases p) (simp_all add: bn_gt_def split: if_splits)
  from Some show ?thesis
    by (auto simp: remainingXvsDailyLimitUsd_def remainingXvsDailyLimitTokens_def
        remainingXvsDailyLimit_def Let_def dest: pos)
qed

text \<open>Daily limit 1000 with 980 used: at price 2 ten tokens remain, at price 0 none.\<close>

theorem remaining_daily_tokens_by_price_witness:
  "getXvsBridgeStatusData (example_input 100 2 (example_status 1000 1000 980))
      = Some (example_status 1000 1000 980)
   \<and> bn_gt (xvsPriceUsd (example_input 100 2 (example_status 1000 1000 980))) (Fin 0)
   \<and> remainingXvsDailyLimitUsd (example_input 100 2 (example_status 1000 1000 980)) = Fin 20
   \<and> remainingXvsDailyLimitTokens (example_input 100 2 (example_status 1000 1000 980)) = Fin 10
   \<and> xvsPriceUsd (example_input 100 0 (example_status 1000 1000 980)) = Fin 0
   \<and> remainingXvsDailyLimitTokens (example_input 100 0 (example_status 1000 1000 980)) = Fin 0"
proof -
  let ?h = "example_input 100 2 (example_status 1000 1000 980)"
  let ?z = "example_input 100 0 (example_status 1000 1000 980)"
  have st: "getXvsBridgeStatusData ?h = Some (example_status 1000 1000 980)"
    by (simp add: example_input_def)
  have price: "xvsPriceUsd ?h = Fin 2"
    by (simp add: xvsPriceUsd_def example_input_def)
  have zero: "xvsPriceUsd ?z = Fin 0"
    by (simp add: xvsPriceUsd_def example_input_def)
  have quot: "bn_dividedBy (Fin 20) (Fin 2) = Fin 10"
    by (simp add: bn_normalise_small)
  have usd: "bn_minus (maxDailyLimitUsd (example_status 1000 1000 980))
      (totalTransferredLast24HourUsd (example_status 1000 1000 980)) = Fin 20"
    by (simp add: example_status_def bn_normalise_small)
  from remaining_daily_tokens_by_price [of ?h "example_status 1000 1000 980"] remaining_daily_tokens_by_price [of ?z] st price zero quot usd
  show ?thesis by (simp add: bn_gt_def)
qed

section \<open>Amount strings that are not numbers\<close>

lemma bn_times_NaN [simp]: "bn_times NaN p = NaN"
  by simp

lemma bn_gt_NaN [simp]: "\<not> bn_gt NaN y" "\<not> bn_lt x NaN"
  by (simp add: bn_gt_def) (cases x; simp add: bn_lt_def)

lemma validateAmountMantissa_NaN:
  "xvsAmountTokens ext v = NaN \<Longrightarrow> validateAmountMantissa ext h v [] = []"
  by (simp add: validateAmountMantissa_fresh xvsAmountUsd_def)

text \<open>
  Claim C7 says that a non-numeric amount string is rejected by a format check before
  it reaches the validator. The schema has no such check: the string \<open>abc\<close> passes
  \<^verbatim>\<open>min(1)\<close>, reaches the validator, is read as NaN there and gets no issue.
\<close>

theorem non_numeric_amount_accepted:
  "xvsAmountTokens example_externals ''abc'' = NaN
   \<and> formSchema_amountTokens example_externals
       (example_input 100 1 (example_status 1000 1000 0)) ''abc'' = []"
  by (simp add: formSchema_amountTokens_def z_string_min_1_def validateAmountMantissa_NaN)

text \<open>
  Claim C7, amended. The empty string gets the issue \<^verbatim>\<open>too_small\<close> of the presence
  check. Every non-empty string goes to the validator, whose issues are the issues of
  the field. A string that is read as NaN raises nothing and gets no issue from the
  validator, so a non-empty string of this kind is accepted.
\<close>

theorem amount_string_checks:
  "formSchema_amountTokens ext h [] =
     [\<lparr>code = ''too_small'', message = ''String must contain at least 1 character(s)'',
       path = [''amountTokens'']\<rparr>]
   \<and> (v \<noteq> [] \<longrightarrow>
        formSchema_amountTokens ext h v =
          map (\<lambda>i. i\<lparr>path := ''amountTokens'' # path i\<rparr>) (validateAmountMantissa ext h v []))
   \<and> (xvsAmountTokens ext v = NaN \<longrightarrow> validateAmountMantissa ext h v [] = [])
   \<and> (v \<noteq> [] \<and> xvsAmountTokens ext v = NaN \<longrightarrow> formSchema_amountTokens ext h v = [])"
proof -
  have "xvsAmountTokens ext [] = NaN"
    by (simp add: xvsAmountTokens_def new_BigNumber_empty)
  then have "validateAmountMantissa ext h [] [] = []"
    by (rule validateAmountMantissa_NaN)
  then show ?thesis
    by (simp add: formSchema_amountTokens_def z_string_min_1_def validateAmountMantissa_NaN)
qed

text \<open>The strings \<open>abc\<close> and the empty string.\<close>

theorem amount_string_checks_witness:
  "''abc'' \<noteq> [] \<and> xvsAmountTokens example_externals ''abc'' = NaN
   \<and> validateAmountMantissa example_externals
       (example_input 100 1 (example_status 1000 1000 0)) ''abc'' [] = []
   \<and> formSchema_amountTokens example_externals
       (example_input 100 1 (example_status 1000 1000 0)) ''abc'' = []
   \<and> map path (formSchema_amountTokens example_externals
       (example_input 100 1 (example_status 1000 1000 0)) []) = [[''amountTokens'']]"
  using amount_string_checks [of example_externals "example_input 100 1 (example_status 1000 1000 0)" "''abc''"]
  by simp

section \<open>What a violation carries\<close>

subsection \<open>The calendar\<close>

text \<open>\<open>YearFromTime\<close> is the year the specification asks for: the last one that has begun.\<close>

lemma year_up_spec:
  "DayFromYear y \<le> d \<Longrightarrow>
     DayFromYear (year_up y d) \<le> d \<and> d < DayFromYear (year_up y d + 1)"
  by (induction y d rule: year_up.induct) (subst (1 2) year_up.simps, simp)

lemma year_down_spec: "DayFromYear (year_down y d) \<le> d"
  by (induction y d rule: year_down.induct) (subst year_down.simps, simp)

lemma YearFromTime_spec:
  "DayFromYear (YearFromTime t) \<le> Day t \<and> Day t < DayFromYear (YearFromTime t + 1)"
  unfolding YearFromTime_def by (rule year_up_spec) (rule year_down_spec)

lemma YearFromTime_example: "YearFromTime 1698490800000 = 2023"
  by (simp add: YearFromTime_def Day_def msPerDay_def year_down.simps year_up.simps
      DayFromYear_def)

lemma MonthFromTime_DateFromTime_example:
  "MonthFromTime 1698490800000 = 9 \<and> DateFromTime 1698490800000 = 28"
  by (simp add: MonthFromTime_def DateFromTime_def DayWithinYear_def InLeapYear_def
      YearFromTime_example Day_def msPerDay_def DayFromYear_def DaysInYear_def
      days_before_month_def Let_def)

text \<open>The day after the day of the month of \<open>t\<close>, in the month of \<open>t\<close>, is the next day.\<close>

lemma MakeDay_next:
  "MakeDay (YearFromTime t) (MonthFromTime t) (DateFromTime t + 1) = Day t + 1"
proof -
  have "0 \<le> MonthFromTime t \<and> MonthFromTime t < 12"
    by (simp add: MonthFromTime_def Let_def)
  then have "MonthFromTime t div 12 = 0" and "MonthFromTime t mod 12 = MonthFromTime t"
    by simp_all
  then show ?thesis
    by (simp add: MakeDay_def DateFromTime_def DayWithinYear_def InLeapYear_def Let_def)
qed

text \<open>
  \<^verbatim>\<open>date.setDate(date.getDate() + 1)\<close> on a valid date: the local time moves on by the
  length of one day, and the new time value is the instant of that local time.
\<close>

lemma setDate_next_day:
  "setDate ext (Some t) (map_option (\<lambda>d. d + 1) (getDate ext (Some t)))
     = TimeClip (UTC ext (LocalTime ext t + msPerDay))"
proof -
  have "MakeDate (Day tl + 1) (TimeWithinDay tl) = tl + msPerDay" for tl
    by (simp add: MakeDate_def Day_def TimeWithinDay_def algebra_simps)
  then show ?thesis
    by (simp add: setDate_def getDate_def Let_def MakeDay_next)
qed

text \<open>A whole number of seconds in the range of \<^verbatim>\<open>Date\<close> gives the date of that instant.\<close>

lemma fromUnixTime_whole:
  assumes "\<bar>k\<bar> \<le> 8640000000000"
  shows "fromUnixTime ext (toNumber ext (Fin (of_int k))) = Some (k * 1000)"
proof -
  from assms have "\<bar>k\<bar> \<le> 2 ^ 53" by simp
  then have "\<bar>of_int k :: rat\<bar> \<le> 2 ^ 53"
    by (metis of_int_abs of_int_le_numeral_power_cancel_iff)
  then have "toNumber ext (Fin (of_int k)) = JNum (of_int k)"
    by (simp add: toNumber_def)
  moreover from assms have "\<bar>k * 1000\<bar> \<le> 8640000000000000"
    by (simp add: abs_mult)
  ultimately show ?thesis by (simp add: fromUnixTime_def TimeClip_def)
qed

subsection \<open>The messages\<close>

text \<open>The three messages, for a loaded price and a loaded bridge status.\<close>

lemma message_singleTransactionLimitExceeded:
  "message (singleTransactionLimitExceeded_issue ext
      \<lparr>walletBalanceTokens = b, xvs = tok, getTokenUsdPriceData = Some p,
       getXvsBridgeStatusData = Some
         \<lparr>status_maxSingleTransactionLimitUsd = s, maxDailyLimitUsd = d,
          totalTransferredLast24HourUsd = u, status_dailyLimitResetTimestamp = r\<rparr>,
       getBalanceOfNativeTokenData = n\<rparr>)
   = t_translate ext ''bridgePage.errors.singleTransactionLimitExceeded.message''
       [(''readableAmountTokens'',
         TString (formatTokensToReadableValue ext (bn_dividedBy s p) tok)),
        (''readableAmountUsd'',
         TString (formatCentsToReadableValue ext (convertDollarsToCents ext s)))]"
  by (simp add: singleTransactionLimitExceeded_issue_def maxSingleTransactionLimitUsd_def
      xvsPriceUsd_def Let_def)

lemma message_dailyTransactionLimitExceeded:
  assumes "\<bar>k\<bar> \<le> 8640000000000"
  shows "message (dailyTransactionLimitExceeded_issue ext
      \<lparr>walletBalanceTokens = b, xvs = tok, getTokenUsdPriceData = Some p,
       getXvsBridgeStatusData = Some
         \<lparr>status_maxSingleTransactionLimitUsd = s, maxDailyLimitUsd = d,
          totalTransferredLast24HourUsd = u,
          status_dailyLimitResetTimestamp = Fin (of_int k)\<rparr>,
       getBalanceOfNativeTokenData = n\<rparr>)
   = t_translate ext ''bridgePage.errors.dailyTransactionLimitExceeded.message''
       [(''readableAmountTokens'',
         TString (formatTokensToReadableValue ext
           (if bn_isZero p then Fin 0 else bn_dividedBy (bn_minus d u) p) tok)),
        (''readableAmountUsd'',
         TString (formatCentsToReadableValue ext (convertDollarsToCents ext (bn_minus d u)))),
        (''date'', TDate (TimeClip (UTC ext (LocalTime ext (k * 1000) + msPerDay))))]"
  by (simp add: dailyTransactionLimitExceeded_issue_def remainingXvsDailyLimitTokens_def
      remainingXvsDailyLimitUsd_def remainingXvsDailyLimit_def dailyLimitResetTimestamp_def
      xvsPriceUsd_def Let_def fromUnixTime_whole [OF assms] setDate_next_day)

lemma message_doesNotHaveEnoughXvs:
  "message (doesNotHaveEnoughXvs_issue ext h)
   = t_translate ext ''bridgePage.errors.doesNotHaveEnoughXvs''
       [(''tokenSymbol'',
         case xvs h of Some x \<Rightarrow> TString (symbol x) | None \<Rightarrow> TUndefined)]"
  by (simp add: doesNotHaveEnoughXvs_issue_def)

text \<open>The example formatting writes a whole number in decimal digits.\<close>

lemma show_bignumber_numeral [simp]:
  "show_bignumber (Fin (numeral n)) = show_nat (numeral n)"
  by (simp add: show_bignumber_def show_int_def)

text \<open>
  Claim C8 says that every reported violation carries the limit in token and USD form,
  and that the daily violation carries the reset instant plus one day. With balance 10
  and amount 50 within both limits, the only violation reported is the balance
  violation, and its message is built from the token symbol alone. And for a reset
  instant of 28 October 2023, 11:00 UTC, in the time zone of central Europe, the daily
  violation that is reported carries the instant 90000 seconds later, not 86400: the
  day after has 25 hours there.
\<close>

theorem carried_data_counterexample:
  "validateAmountMantissa example_externals
      (example_input 10 1 (example_status 1000 1000 0)) ''50'' []
     = [\<lparr>code = ''custom'',
         message = ''bridgePage.errors.doesNotHaveEnoughXvs tokenSymbol=XVS'',
         path = [''doesNotHaveEnoughXvs'']\<rparr>]
   \<and> dailyTransactionLimitExceeded_issue example_externals_dst
        (example_input 100 25
          ((example_status 1000 1000 900)\<lparr>status_dailyLimitResetTimestamp := Fin 1698490800\<rparr>))
       \<in> set (validateAmountMantissa example_externals_dst
        (example_input 100 25
          ((example_status 1000 1000 900)\<lparr>status_dailyLimitResetTimestamp := Fin 1698490800\<rparr>))
        ''50'' [])
   \<and> message (dailyTransactionLimitExceeded_issue example_externals_dst
        (example_input 100 25
          ((example_status 1000 1000 900)\<lparr>status_dailyLimitResetTimestamp := Fin 1698490800\<rparr>)))
     = ''bridgePage.errors.dailyTransactionLimitExceeded.message readableAmountTokens=4 XVS readableAmountUsd=10000 cents date=1698580800000''
   \<and> (1698580800000 :: int) = 1698490800 * 1000 + 90000 * 1000"
proof -
  let ?h = "example_input 10 1 (example_status 1000 1000 0)"
  have usd: "xvsAmountUsd example_externals ?h ''50'' = Fin 50"
    by (simp add: xvsAmountUsd_def xvsPriceUsd_def example_input_def bn_normalise_small)
  have single: "maxSingleTransactionLimitUsd ?h = Fin 1000"
    by (simp add: maxSingleTransactionLimitUsd_def example_input_def example_status_def)
  have daily: "remainingXvsDailyLimitUsd ?h = Fin 1000"
    by (simp add: remainingXvsDailyLimitUsd_def remainingXvsDailyLimit_def example_input_def
        example_status_def Let_def bn_normalise_small)
  have balance: "walletBalanceTokens ?h = Fin 10"
    by (simp add: example_input_def)
  have only: "validateAmountMantissa example_externals ?h ''50'' []
      = [doesNotHaveEnoughXvs_issue example_externals ?h]"
    by (simp add: validateAmountMantissa_fresh usd single daily balance bn_gt_def bn_lt_def)
  have first: "doesNotHaveEnoughXvs_issue example_externals ?h
      = \<lparr>code = ''custom'',
         message = ''bridgePage.errors.doesNotHaveEnoughXvs tokenSymbol=XVS'',
         path = [''doesNotHaveEnoughXvs'']\<rparr>"
    by (simp add: doesNotHaveEnoughXvs_issue_def example_externals_def example_input_def
        show_t_value_def)
  let ?g = "example_input 100 25
      ((example_status 1000 1000 900)\<lparr>status_dailyLimitResetTimestamp := Fin 1698490800\<rparr>)"
  have g: "?g = \<lparr>walletBalanceTokens = Fin 100, xvs = Some \<lparr>symbol = ''XVS''\<rparr>,
       getTokenUsdPriceData = Some (Fin 25),
       getXvsBridgeStatusData = Some
         \<lparr>status_maxSingleTransactionLimitUsd = Fin 1000, maxDailyLimitUsd = Fin 1000,
          totalTransferredLast24HourUsd = Fin 900,
          status_dailyLimitResetTimestamp = Fin (of_int 1698490800)\<rparr>,
       getBalanceOfNativeTokenData = Some (Fin 5)\<rparr>"
    by (simp add: example_input_def example_status_def)
  have usd': "xvsAmountUsd example_externals_dst ?g ''50'' = Fin 1250"
    by (simp add: xvsAmountUsd_def xvsPriceUsd_def example_input_def bn_normalise_small)
  have daily': "remainingXvsDailyLimitUsd ?g = Fin 100"
    by (simp add: remainingXvsDailyLimitUsd_def remainingXvsDailyLimit_def example_input_def
        example_status_def Let_def bn_normalise_small)
  have reported: "dailyTransactionLimitExceeded_issue example_externals_dst ?g
      \<in> set (validateAmountMantissa example_externals_dst ?g ''50'' [])"
    by (simp add: validateAmountMantissa_fresh usd' daily' bn_gt_def)
  have day: "TimeClip (UTC example_externals_dst
      (LocalTime example_externals_dst (1698490800 * 1000) + msPerDay)) = Some 1698580800000"
    by (simp add: TimeClip_def UTC_def LocalTime_def msPerDay_def example_externals_dst_def)
  have "message (dailyTransactionLimitExceeded_issue example_externals_dst ?g)
     = ''bridgePage.errors.dailyTransactionLimitExceeded.message readableAmountTokens=4 XVS readableAmountUsd=10000 cents date=1698580800000''"
    unfolding g
    by (subst message_dailyTransactionLimitExceeded, simp, simp only: day)
      (simp add: bn_normalise_small example_externals_dst_def example_externals_def
        show_t_value_def show_int_def show_nat.simps)
  with only first reported show ?thesis by simp
qed

text \<open>
  Claim C8, amended. With the price and the bridge status loaded and a reset timestamp
  that is a whole number of seconds in the range of \<^verbatim>\<open>Date\<close>, every issue is one of
  three. The message of the single-transaction violation is built from the
  single-transaction limit of the status in readable token form (the limit divided by
  the price) and in readable USD form. The message of the daily violation is built from
  the remaining daily limit (the daily limit minus the amount transferred) in readable
  token and USD form, and from a date: the instant whose local time is the local time
  of the reset instant plus the length of one day, that is the same time of day on the
  next day of the local calendar. Where the offset of the local time zone is constant,
  this instant is the reset instant plus 86400 seconds. The message of the balance
  violation is built from the token symbol only.
\<close>

theorem limit_violations_carry_limits:
  assumes "\<bar>k\<bar> \<le> 8640000000000"
  shows "(\<forall>i \<in> set (validateAmountMantissa ext
        \<lparr>walletBalanceTokens = b, xvs = tok, getTokenUsdPriceData = Some p,
         getXvsBridgeStatusData = Some
           \<lparr>status_maxSingleTransactionLimitUsd = s, maxDailyLimitUsd = d,
            totalTransferredLast24HourUsd = u,
            status_dailyLimitResetTimestamp = Fin (of_int k)\<rparr>,
         getBalanceOfNativeTokenData = n\<rparr> v []).
      path i \<in> {[''singleTransactionLimitExceeded''], [''dailyTransactionLimitExceeded''],
                 [''doesNotHaveEnoughXvs'']}
      \<and> (path i = [''singleTransactionLimitExceeded''] \<longrightarrow>
         message i = t_translate ext ''bridgePage.errors.singleTransactionLimitExceeded.message''
           [(''readableAmountTokens'',
             TString (formatTokensToReadableValue ext (bn_dividedBy s p) tok)),
            (''readableAmountUsd'',
             TString (formatCentsToReadableValue ext (convertDollarsToCents ext s)))])
      \<and> (path i = [''dailyTransactionLimitExceeded''] \<longrightarrow>
         message i = t_translate ext ''bridgePage.errors.dailyTransactionLimitExceeded.message''
           [(''readableAmountTokens'',
             TString (formatTokensToReadableValue ext
               (if bn_isZero p then Fin 0 else bn_dividedBy (bn_minus d u) p) tok)),
            (''readableAmountUsd'',
             TString (formatCentsToReadableValue ext
               (convertDollarsToCents ext (bn_minus d u)))),
            (''date'',
             TDate (TimeClip (UTC ext (LocalTime ext (k * 1000) + msPerDay))))])
      \<and> (path i = [''doesNotHaveEnoughXvs''] \<longrightarrow>
         message i = t_translate ext ''bridgePage.errors.doesNotHaveEnoughXvs''
           [(''tokenSymbol'',
             case tok of Some x \<Rightarrow> TString (symbol x) | None \<Rightarrow> TUndefined)]))
   \<and> ((\<forall>t isUTC. LocalTZA ext t isUTC = z) \<and> k \<le> 8639999913600 \<longrightarrow>
        TimeClip (UTC ext (LocalTime ext (k * 1000) + msPerDay))
          = Some (k * 1000 + 86400 * 1000))"
proof (intro conjI ballI impI)
  let ?h = "\<lparr>walletBalanceTokens = b, xvs = tok, getTokenUsdPriceData = Some p,
         getXvsBridgeStatusData = Some
           \<lparr>status_maxSingleTransactionLimitUsd = s, maxDailyLimitUsd = d,
            totalTransferredLast24HourUsd = u,
            status_dailyLimitResetTimestamp = Fin (of_int k)\<rparr>,
         getBalanceOfNativeTokenData = n\<rparr>"
  fix i
  assume "i \<in> set (validateAmountMantissa ext ?h v [])"
  then have kinds: "i = singleTransactionLimitExceeded_issue ext ?h
      \<or> i = dailyTransactionLimitExceeded_issue ext ?h
      \<or> i = doesNotHaveEnoughXvs_issue ext ?h"
    by (auto simp: validateAmountMantissa_fresh split: if_splits)
  then show "path i \<in> {[''singleTransactionLimitExceeded''],
      [''dailyTransactionLimitExceeded''], [''doesNotHaveEnoughXvs'']}"
    by auto
  {
    assume "path i = [''singleTransactionLimitExceeded'']"
    with kinds have "i = singleTransactionLimitExceeded_issue ext ?h" by auto
    then show "message i
        = t_translate ext ''bridgePage.errors.singleTransactionLimitExceeded.message''
           [(''readableAmountTokens'',
             TString (formatTokensToReadableValue ext (bn_dividedBy s p) tok)),
            (''readableAmountUsd'',
             TString (formatCentsToReadableValue ext (convertDollarsToCents ext s)))]"
      by (simp only: message_singleTransactionLimitExceeded)
  }
  {
    assume "path i = [''dailyTransactionLimitExceeded'']"
    with kinds have "i = dailyTransactionLimitExceeded_issue ext ?h" by auto
    then show "message i
        = t_translate ext ''bridgePage.errors.dailyTransactionLimitExceeded.message''
           [(''readableAmountTokens'',
             TString (formatTokensToReadableValue ext
               (if bn_isZero p then Fin 0 else bn_dividedBy (bn_minus d u) p) tok)),
            (''readableAmountUsd'',
             TString (formatCentsToReadableValue ext
               (convertDollarsToCents ext (bn_minus d u)))),
            (''date'',
             TDate (TimeClip (UTC ext (LocalTime ext (k * 1000) + msPerDay))))]"
      by (simp only: message_dailyTransactionLimitExceeded [OF assms])
  }
  {
    assume "path i = [''doesNotHaveEnoughXvs'']"
    with kinds have "i = doesNotHaveEnoughXvs_issue ext ?h" by auto
    then show "message i = t_translate ext ''bridgePage.errors.doesNotHaveEnoughXvs''
           [(''tokenSymbol'',
             case tok of Some x \<Rightarrow> TString (symbol x) | None \<Rightarrow> TUndefined)]"
      by (simp add: message_doesNotHaveEnoughXvs)
  }
next
  assume "(\<forall>t isUTC. LocalTZA ext t isUTC = z) \<and> k \<le> 8639999913600"
  then have zone: "\<forall>t isUTC. LocalTZA ext t isUTC = z" and "k \<le> 8639999913600"
    by simp_all
  with assms have "\<bar>k * 1000 + 86400 * 1000\<bar> \<le> 8640000000000000"
    by (simp add: abs_le_iff)
  with zone show "TimeClip (UTC ext (LocalTime ext (k * 1000) + msPerDay))
      = Some (k * 1000 + 86400 * 1000)"
    by (simp add: TimeClip_def UTC_def LocalTime_def msPerDay_def)
qed

text \<open>
  Amount 50 at price 25 with single limit 1000, daily limit 1000 of which 900 are used,
  and the reset instant 1700000000, in UTC: both limit violations are reported; the
  first carries 40 tokens and 1000 USD, the second 4 tokens, 100 USD and the instant
  1700086400.
\<close>

theorem limit_violations_carry_limits_witness:
  "\<bar>1700000000 :: int\<bar> \<le> 8640000000000
   \<and> (\<forall>t isUTC. LocalTZA example_externals t isUTC = 0)
   \<and> (1700000000 :: int) \<le> 8639999913600
   \<and> map path (validateAmountMantissa example_externals
        (example_input 100 25 (example_status 1000 1000 900)) ''50'' [])
      = [[''singleTransactionLimitExceeded''], [''dailyTransactionLimitExceeded'']]
   \<and> map message (validateAmountMantissa example_externals
        (example_input 100 25 (example_status 1000 1000 900)) ''50'' [])
      = [''bridgePage.errors.singleTransactionLimitExceeded.message readableAmountTokens=40 XVS readableAmountUsd=100000 cents'',
         ''bridgePage.errors.dailyTransactionLimitExceeded.message readableAmountTokens=4 XVS readableAmountUsd=10000 cents date=1700086400000'']"
proof -
  let ?h = "example_input 100 25 (example_status 1000 1000 900)"
  let ?S = "singleTransactionLimitExceeded_issue example_externals ?h"
  let ?D = "dailyTransactionLimitExceeded_issue example_externals ?h"
  have h: "?h = \<lparr>walletBalanceTokens = Fin 100, xvs = Some \<lparr>symbol = ''XVS''\<rparr>,
       getTokenUsdPriceData = Some (Fin 25),
       getXvsBridgeStatusData = Some
         \<lparr>status_maxSingleTransactionLimitUsd = Fin 1000, maxDailyLimitUsd = Fin 1000,
          totalTransferredLast24HourUsd = Fin 900,
          status_dailyLimitResetTimestamp = Fin (of_int 1700000000)\<rparr>,
       getBalanceOfNativeTokenData = Some (Fin 5)\<rparr>"
    by (simp add: example_input_def example_status_def)
  have bound: "\<bar>1700000000 :: int\<bar> \<le> 8640000000000"
    by simp
  have zone: "\<forall>t isUTC. LocalTZA example_externals t isUTC = 0"
    by (simp add: example_externals_def)
  have usd: "xvsAmountUsd example_externals ?h ''50'' = Fin 1250"
    by (simp add: xvsAmountUsd_def xvsPriceUsd_def example_input_def bn_normalise_small)
  have single: "maxSingleTransactionLimitUsd ?h = Fin 1000"
    by (simp add: maxSingleTransactionLimitUsd_def example_input_def example_status_def)
  have daily: "remainingXvsDailyLimitUsd ?h = Fin 100"
    by (simp add: remainingXvsDailyLimitUsd_def remainingXvsDailyLimit_def example_input_def
        example_status_def Let_def bn_normalise_small)
  have balance: "walletBalanceTokens ?h = Fin 100"
    by (simp add: example_input_def)
  have result: "validateAmountMantissa example_externals ?h ''50'' [] = [?S, ?D]"
    by (simp add: validateAmountMantissa_fresh usd single daily balance bn_gt_def bn_lt_def)
  note carried = limit_violations_carry_limits [OF bound, where ext = example_externals and b = "Fin 100"
      and tok = "Some \<lparr>symbol = ''XVS''\<rparr>" and p = "Fin 25" and s = "Fin 1000"
      and d = "Fin 1000" and u = "Fin 900" and n = "Some (Fin 5)" and v = "''50''" and z = 0,
      folded h]
  from carried zone have day: "TimeClip (UTC example_externals
      (LocalTime example_externals (1700000000 * 1000) + msPerDay)) = Some 1700086400000"
    by simp
  from carried have "\<forall>i \<in> set [?S, ?D].
      (path i = [''singleTransactionLimitExceeded''] \<longrightarrow>
         message i = t_translate example_externals
           ''bridgePage.errors.singleTransactionLimitExceeded.message''
           [(''readableAmountTokens'',
             TString (formatTokensToReadableValue example_externals
               (bn_dividedBy (Fin 1000) (Fin 25)) (Some \<lparr>symbol = ''XVS''\<rparr>))),
            (''readableAmountUsd'',
             TString (formatCentsToReadableValue example_externals
               (convertDollarsToCents example_externals (Fin 1000))))])
      \<and> (path i = [''dailyTransactionLimitExceeded''] \<longrightarrow>
         message i = t_translate example_externals
           ''bridgePage.errors.dailyTransactionLimitExceeded.message''
           [(''readableAmountTokens'',
             TString (formatTokensToReadableValue example_externals
               (if bn_isZero (Fin 25) then Fin 0
                else bn_dividedBy (bn_minus (Fin 1000) (Fin 900)) (Fin 25))
               (Some \<lparr>symbol = ''XVS''\<rparr>))),
            (''readableAmountUsd'',
             TString (formatCentsToReadableValue example_externals
               (convertDollarsToCents example_externals (bn_minus (Fin 1000) (Fin 900))))),
            (''date'', TDate (Some 1700086400000))])"
    unfolding result day by simp
  then have "message ?S = ''bridgePage.errors.singleTransactionLimitExceeded.message readableAmountTokens=40 XVS readableAmountUsd=100000 cents''"
    and "message ?D = ''bridgePage.errors.dailyTransactionLimitExceeded.message readableAmountTokens=4 XVS readableAmountUsd=10000 cents date=1700086400000''"
    by (simp_all add: bn_normalise_small example_externals_def show_t_value_def show_int_def
        show_nat.simps)
  with bound zone result show ?thesis by simp
qed

end
